theory Spec2Isabelle
  imports Complex_Main
begin

section \<open>Floating-point values\<close>

text \<open>
  The program computes with NumPy double-precision numbers.  They are modelled as the
  real numbers extended by the two infinities and one not-a-number value: \<open>Fin r\<close> is
  the number \<open>r\<close>, \<open>PInf\<close> and \<open>NInf\<close> are \<open>inf\<close> and \<open>-inf\<close>, \<open>NaN\<close> is
  \<open>nan\<close>.  On numbers the four operations, and with them the powers, are exact: the
  rounding of the 64-bit format (underflow to 0 with it), and the overflow of a sum,
  product, quotient or power of numbers, are outside this model.  Where an operand is infinite or \<open>NaN\<close>, or a divisor is zero, the operations
  follow IEEE 754 as NumPy does (a warning, no exception): \<open>inf - inf\<close>, \<open>0 * inf\<close>,
  \<open>inf / inf\<close> and \<open>0 / 0\<close> are \<open>nan\<close>, a number divided by an infinity is 0, and
  a number other than 0 divided by 0 is an infinity.  The model has one zero, taken as
  \<open>+0\<close>: a quotient by zero has the sign of its dividend.  Comparisons with \<open>NaN\<close>
  are false.
\<close>

datatype pyfloat = NaN | Fin real | Infty bool

abbreviation PInf :: pyfloat where
  "PInf \<equiv> Infty True"

abbreviation NInf :: pyfloat where
  "NInf \<equiv> Infty False"

instantiation pyfloat :: "{zero, one, plus, minus, uminus, times, inverse, ord}"
begin

definition zero_pyfloat :: pyfloat where
  "zero_pyfloat = Fin 0"

definition one_pyfloat :: pyfloat where
  "one_pyfloat = Fin 1"

fun plus_pyfloat :: "pyfloat \<Rightarrow> pyfloat \<Rightarrow> pyfloat" where
  "plus_pyfloat (Fin a) (Fin b) = Fin (a + b)"
| "plus_pyfloat (Fin a) (Infty t) = Infty t"
| "plus_pyfloat (Infty s) (Fin b) = Infty s"
| "plus_pyfloat (Infty s) (Infty t) = (if s = t then Infty s else NaN)"
| "plus_pyfloat _ _ = NaN"

fun minus_pyfloat :: "pyfloat \<Rightarrow> pyfloat \<Rightarrow> pyfloat" where
  "minus_pyfloat (Fin a) (Fin b) = Fin (a - b)"
| "minus_pyfloat (Fin a) (Infty t) = Infty (\<not> t)"
| "minus_pyfloat (Infty s) (Fin b) = Infty s"
| "minus_pyfloat (Infty s) (Infty t) = (if s = t then NaN else Infty s)"
| "minus_pyfloat _ _ = NaN"

fun uminus_pyfloat :: "pyfloat \<Rightarrow> pyfloat" where
  "uminus_pyfloat (Fin a) = Fin (- a)"
| "uminus_pyfloat (Infty s) = Infty (\<not> s)"
| "uminus_pyfloat NaN = NaN"

fun times_pyfloat :: "pyfloat \<Rightarrow> pyfloat \<Rightarrow> pyfloat" where
  "times_pyfloat (Fin a) (Fin b) = Fin (a * b)"
| "times_pyfloat (Fin a) (Infty t) = (if a = 0 then NaN else Infty (t = (0 < a)))"
| "times_pyfloat (Infty s) (Fin b) = (if b = 0 then NaN else Infty (s = (0 < b)))"
| "times_pyfloat (Infty s) (Infty t) = Infty (s = t)"
| "times_pyfloat _ _ = NaN"

fun divide_pyfloat :: "pyfloat \<Rightarrow> pyfloat \<Rightarrow> pyfloat" where
  "divide_pyfloat (Fin a) (Fin b) =
     (if b = 0 then (if a = 0 then NaN else Infty (0 < a)) else Fin (a / b))"
| "divide_pyfloat (Fin a) (Infty t) = Fin 0"
| "divide_pyfloat (Infty s) (Fin b) = Infty (s = (0 \<le> b))"
| "divide_pyfloat _ _ = NaN"

fun inverse_pyfloat :: "pyfloat \<Rightarrow> pyfloat" where
  "inverse_pyfloat (Fin a) = (if a = 0 then Infty True else Fin (inverse a))"
| "inverse_pyfloat (Infty s) = Fin 0"
| "inverse_pyfloat NaN = NaN"

fun less_pyfloat :: "pyfloat \<Rightarrow> pyfloat \<Rightarrow> bool" where
  "less_pyfloat (Fin a) (Fin b) = (a < b)"
| "less_pyfloat (Fin a) (Infty t) = t"
| "less_pyfloat (Infty s) (Fin b) = (\<not> s)"
| "less_pyfloat (Infty s) (Infty t) = (\<not> s \<and> t)"
| "less_pyfloat _ _ = False"

fun less_eq_pyfloat :: "pyfloat \<Rightarrow> pyfloat \<Rightarrow> bool" where
  "less_eq_pyfloat (Fin a) (Fin b) = (a \<le> b)"
| "less_eq_pyfloat (Fin a) (Infty t) = t"
| "less_eq_pyfloat (Infty s) (Fin b) = (\<not> s)"
| "less_eq_pyfloat (Infty s) (Infty t) = (s = t \<or> t)"
| "less_eq_pyfloat _ _ = False"

instance ..

end

instance pyfloat :: comm_monoid_add
proof
  fix x y z :: pyfloat
  show "0 + x = x"
    by (cases x; simp add: zero_pyfloat_def)
  show "x + y = y + x"
    by (cases x; cases y; auto)
  show "x + y + z = x + (y + z)"
    by (cases x; cases y; cases z; auto)
qed

instance pyfloat :: comm_monoid_mult
proof
  fix x y z :: pyfloat
  show "1 * x = x"
    by (cases x; simp add: one_pyfloat_def)
  show "x * y = y * x"
    by (cases x; cases y; auto)
  show "x * y * z = x * (y * z)"
    by (cases x; cases y; cases z; auto simp add: zero_less_mult_iff)
qed

instance pyfloat :: numeral ..

text \<open>
  \<open>np.pi\<close>, \<open>np.exp\<close>, \<open>np.log\<close> and \<open>np.isnan\<close>.  \<open>DBL_MAX\<close> is the largest
  number of the 64-bit format, \<open>1.7976931348623157e308\<close>: \<open>np.exp\<close> returns \<open>inf\<close>
  where the exponential is beyond it, that is for arguments above \<open>709.78\<close>.
  \<open>np.log\<close> returns \<open>-inf\<close> at 0 and \<open>nan\<close> below.
\<close>

definition np_pi :: pyfloat where
  "np_pi = Fin pi"

definition DBL_MAX :: real where
  "DBL_MAX = (2 - 1 / 2 ^ 52) * 2 ^ 1023"

fun np_exp :: "pyfloat \<Rightarrow> pyfloat" where
  "np_exp (Fin a) = (if DBL_MAX < exp a then PInf else Fin (exp a))"
| "np_exp (Infty s) = (if s then PInf else Fin 0)"
| "np_exp NaN = NaN"

fun np_log :: "pyfloat \<Rightarrow> pyfloat" where
  "np_log (Fin a) = (if a < 0 then NaN else if a = 0 then NInf else Fin (ln a))"
| "np_log (Infty s) = (if s then PInf else NaN)"
| "np_log NaN = NaN"

definition np_isnan :: "pyfloat \<Rightarrow> bool" where
  "np_isnan x = (x = NaN)"

section \<open>Class Mode\<close>

text \<open>
  What a call can report instead of a value: \<open>SingleCalcOnly\<close> is the message
  ``This modulus is limited to a single frequency calculation'' (printed, and \<open>None\<close>
  returned); the others are the Python exceptions of the same names
  (\<open>LinAlgError\<close> is NumPy's, for a singular matrix).
\<close>

datatype error =
  SingleCalcOnly | IndexError | ValueError | AttributeError | LinAlgError | AssertionError

text \<open>
  The attributes of a \<open>Mode\<close> object.  The four derived attributes do not exist until
  the method that computes them has run: \<open>None\<close> is the absent attribute
  (\<open>hasattr\<close> is false).
\<close>

record Mode =
  rank :: int
  ncalc :: nat
  frequency :: "pyfloat list"
  volume :: "pyfloat list"
  eigenvector :: "pyfloat list list list"
  zp_energy :: "pyfloat option"
  U_vib :: "pyfloat option"
  entropy :: "pyfloat option"
  C_v :: "pyfloat option"

text \<open>\<open>Mode.__init__\<close>: the frequencies in THz are stored as angular frequencies.\<close>

definition Mode_init ::
  "int \<Rightarrow> pyfloat list \<Rightarrow> pyfloat list \<Rightarrow> pyfloat list list list \<Rightarrow> Mode" where
  "Mode_init rank' frequency' volume' eigenvector' =
     \<lparr>rank = rank',
      ncalc = length frequency',
      frequency = map (\<lambda>f. f * 2 * np_pi) frequency',
      volume = volume',
      eigenvector = eigenvector',
      zp_energy = None, U_vib = None, entropy = None, C_v = None\<rparr>"

text \<open>
  The two local quantities every formula starts from: \<open>hbar_freq\<close> from
  \<open>self.frequency[0]\<close> and \<open>kb_t\<close> from the temperature
  (\<open>6.626070E-2\<close> and \<open>1.380649E-3\<close> written out).
\<close>

definition hbar_freq :: "pyfloat \<Rightarrow> pyfloat" where
  "hbar_freq frequency0 = frequency0 * 6.022141 * 0.06626070 / 2 / np_pi"

definition kb_t :: "pyfloat \<Rightarrow> pyfloat" where
  "kb_t temperature = 0.001380649 * 6.022141 * temperature"

text \<open>
  Every method returns its result (or what it reports) together with the object as the
  call leaves it.
\<close>

definition get_zp_energy :: "Mode \<Rightarrow> (error + pyfloat) \<times> Mode" where
  "get_zp_energy self =
     (if 1 < ncalc self then (Inl SingleCalcOnly, self)
      else case frequency self of
             [] \<Rightarrow> (Inl IndexError, self)
           | f # _ \<Rightarrow>
               (let zp = 0.5 * hbar_freq f
                in (Inr zp, self\<lparr>zp_energy := Some zp\<rparr>)))"

definition get_U_vib :: "pyfloat \<Rightarrow> Mode \<Rightarrow> (error + pyfloat) \<times> Mode" where
  "get_U_vib temperature self =
     (if 1 < ncalc self then (Inl SingleCalcOnly, self)
      else case (case zp_energy self of
                   None \<Rightarrow> get_zp_energy self
                 | Some z \<Rightarrow> (Inr z, self)) of
             (Inl e, self1) \<Rightarrow> (Inl e, self1)
           | (Inr zp, self1) \<Rightarrow>
               if temperature = 0 then (Inr zp, self1\<lparr>U_vib := Some zp\<rparr>)
               else (case frequency self1 of
                       [] \<Rightarrow> (Inl IndexError, self1)
                     | f # _ \<Rightarrow>
                         (let expon = np_exp (hbar_freq f / kb_t temperature);
                              u = zp + hbar_freq f / (expon - 1)
                          in (Inr u, self1\<lparr>U_vib := Some u\<rparr>))))"

definition get_entropy :: "pyfloat \<Rightarrow> Mode \<Rightarrow> (error + pyfloat) \<times> Mode" where
  "get_entropy temperature self =
     (if 1 < ncalc self then (Inl SingleCalcOnly, self)
      else if temperature = 0 then (Inr 0, self\<lparr>entropy := Some 0\<rparr>)
      else case frequency self of
             [] \<Rightarrow> (Inl IndexError, self)
           | f # _ \<Rightarrow>
               (let expon = np_exp (hbar_freq f / kb_t temperature);
                    entS = kb_t temperature *
                      (hbar_freq f / kb_t temperature / (expon - 1) - np_log (1 - 1 / expon));
                    s = entS / temperature * 1000
                in (Inr s, self\<lparr>entropy := Some s\<rparr>)))"

definition get_C_v :: "pyfloat \<Rightarrow> Mode \<Rightarrow> (error + pyfloat) \<times> Mode" where
  "get_C_v temperature self =
     (if 1 < ncalc self then (Inl SingleCalcOnly, self)
      else if temperature = 0 then (Inr 0, self\<lparr>C_v := Some 0\<rparr>)
      else case frequency self of
             [] \<Rightarrow> (Inl IndexError, self)
           | f # _ \<Rightarrow>
               (let expon = np_exp (hbar_freq f / kb_t temperature);
                    c = (hbar_freq f)\<^sup>2 / kb_t temperature / temperature * expon
                          / (expon - 1)\<^sup>2 * 1000
                in (Inr c, self\<lparr>C_v := Some c\<rparr>)))"

text \<open>
  The cached zero-point energy is the one \<open>get_zp_energy\<close> computes: true of a new
  object, kept by every method.
\<close>

definition zp_cache_ok :: "Mode \<Rightarrow> bool" where
  "zp_cache_ok m =
     (case zp_energy m of
        None \<Rightarrow> True
      | Some z \<Rightarrow> fst (get_zp_energy m) = Inr z)"

section \<open>Class Harmonic\<close>

text \<open>
  The attributes of a \<open>Harmonic\<close> object; \<open>None\<close> is an attribute the object does
  not have yet.  The attribute \<open>edft\<close> is the electronic energy as a single number, as
  \<open>from_file\<close> stores it after its length check; the energies as the output file
  lists them are a field of \<open>Crystal_output\<close> below.
\<close>

record Harmonic =
  edft :: "pyfloat option"
  nqpoint :: "nat option"
  qpoint :: "pyfloat list list option"
  volume :: "pyfloat option"
  temperature :: "pyfloat list option"
  pressure :: "pyfloat list option"
  mode :: "Mode list list option"
  zp_energy :: "pyfloat list option"
  U_vib :: "pyfloat list list option"
  entropy :: "pyfloat list list option"
  C_v :: "pyfloat list list option"
  helmholtz :: "pyfloat list list option"
  gibbs :: "pyfloat list list list option"

text \<open>\<open>Harmonic.__init__\<close> sets nothing.\<close>

definition Harmonic_init :: Harmonic where
  "Harmonic_init =
     \<lparr>edft = None, nqpoint = None, qpoint = None, volume = None, temperature = None,
      pressure = None, mode = None, zp_energy = None, U_vib = None, entropy = None,
      C_v = None, helmholtz = None, gibbs = None\<rparr>"

subsection \<open>phonon_sumup\<close>

text \<open>
  The test \<open>not np.isnan(mode.frequency) and mode.frequency > 1e-5\<close> on the array
  \<open>mode.frequency\<close>.  An array of one element has the truth value of its element; an
  array of any other length has none, and NumPy raises \<open>ValueError\<close>.
\<close>

definition not_translational :: "Mode \<Rightarrow> error + bool" where
  "not_translational md =
     (case Mode.frequency md of
        [f] \<Rightarrow> Inr (\<not> np_isnan f \<and> 0.00001 < f)
      | _ \<Rightarrow> Inl ValueError)"

text \<open>
  The inner loop \<open>for mode in qpoint\<close> with \<open>temperature = None\<close>; the first
  argument is \<open>zp_energy_q\<close> so far.  The modes come back as the calls leave them.
\<close>

fun sumup_zp_qpoint :: "pyfloat \<Rightarrow> Mode list \<Rightarrow> error + pyfloat \<times> Mode list" where
  "sumup_zp_qpoint zp_energy_q [] = Inr (zp_energy_q, [])"
| "sumup_zp_qpoint zp_energy_q (md # qp) =
     (case not_translational md of
        Inl e \<Rightarrow> Inl e
      | Inr False \<Rightarrow>
          (case sumup_zp_qpoint zp_energy_q qp of
             Inl e \<Rightarrow> Inl e
           | Inr (r, qp') \<Rightarrow> Inr (r, md # qp'))
      | Inr True \<Rightarrow>
          (case get_zp_energy md of
             (Inl e, _) \<Rightarrow> Inl e
           | (Inr z, md') \<Rightarrow>
               (case sumup_zp_qpoint (zp_energy_q + z) qp of
                  Inl e \<Rightarrow> Inl e
                | Inr (r, qp') \<Rightarrow> Inr (r, md' # qp'))))"

text \<open>The three calls on one mode, in the order of the loop body.\<close>

definition mode_thermal ::
  "pyfloat \<Rightarrow> Mode \<Rightarrow> error + (pyfloat \<times> pyfloat \<times> pyfloat) \<times> Mode" where
  "mode_thermal T md =
     (case get_U_vib T md of
        (Inl e, _) \<Rightarrow> Inl e
      | (Inr u, mode1) \<Rightarrow>
          (case get_entropy T mode1 of
             (Inl e, _) \<Rightarrow> Inl e
           | (Inr s, mode2) \<Rightarrow>
               (case get_C_v T mode2 of
                  (Inl e, _) \<Rightarrow> Inl e
                | (Inr c, mode3) \<Rightarrow> Inr ((u, s, c), mode3))))"

text \<open>
  The inner loop with a temperature; the accumulators are \<open>U_vib_q\<close>,
  \<open>entropy_q\<close> and \<open>C_v_q\<close>.
\<close>

fun sumup_T_qpoint ::
  "pyfloat \<Rightarrow> pyfloat \<times> pyfloat \<times> pyfloat \<Rightarrow> Mode list \<Rightarrow>
   error + (pyfloat \<times> pyfloat \<times> pyfloat) \<times> Mode list" where
  "sumup_T_qpoint T acc [] = Inr (acc, [])"
| "sumup_T_qpoint T (U_vib_q, entropy_q, C_v_q) (md # qp) =
     (case not_translational md of
        Inl e \<Rightarrow> Inl e
      | Inr False \<Rightarrow>
          (case sumup_T_qpoint T (U_vib_q, entropy_q, C_v_q) qp of
             Inl e \<Rightarrow> Inl e
           | Inr (r, qp') \<Rightarrow> Inr (r, md # qp'))
      | Inr True \<Rightarrow>
          (case mode_thermal T md of
             Inl e \<Rightarrow> Inl e
           | Inr ((u, s, c), md') \<Rightarrow>
               (case sumup_T_qpoint T (U_vib_q + u, entropy_q + s, C_v_q + c) qp of
                  Inl e \<Rightarrow> Inl e
                | Inr (r, qp') \<Rightarrow> Inr (r, md' # qp'))))"

text \<open>The outer loops \<open>for qpoint in self.mode\<close>; \<open>np.append\<close> adds at the end.\<close>

fun sumup_zp :: "Mode list list \<Rightarrow> error + pyfloat list \<times> Mode list list" where
  "sumup_zp [] = Inr ([], [])"
| "sumup_zp (qp # rest) =
     (case sumup_zp_qpoint 0 qp of
        Inl e \<Rightarrow> Inl e
      | Inr (zp_energy_q, qp') \<Rightarrow>
          (case sumup_zp rest of
             Inl e \<Rightarrow> Inl e
           | Inr (zp_energy_all, rest') \<Rightarrow> Inr (zp_energy_q # zp_energy_all, qp' # rest')))"

fun sumup_T ::
  "pyfloat \<Rightarrow> Mode list list \<Rightarrow>
   error + (pyfloat list \<times> pyfloat list \<times> pyfloat list) \<times> Mode list list" where
  "sumup_T T [] = Inr (([], [], []), [])"
| "sumup_T T (qp # rest) =
     (case sumup_T_qpoint T (0, 0, 0) qp of
        Inl e \<Rightarrow> Inl e
      | Inr ((U_vib_q, entropy_q, C_v_q), qp') \<Rightarrow>
          (case sumup_T T rest of
             Inl e \<Rightarrow> Inl e
           | Inr ((U_vib_all, entropy_all, C_v_all), rest') \<Rightarrow>
               Inr ((U_vib_q # U_vib_all, entropy_q # entropy_all, C_v_q # C_v_all), qp' # rest')))"

text \<open>
  What \<open>phonon_sumup\<close> returns: the zero-point energies when no temperature is given,
  otherwise the three arrays.
\<close>

datatype sumup = ZeroPoint "pyfloat list" | Thermal "pyfloat list" "pyfloat list" "pyfloat list"

definition phonon_sumup :: "pyfloat option \<Rightarrow> Harmonic \<Rightarrow> error + sumup \<times> Harmonic" where
  "phonon_sumup temperature' self =
     (case mode self of
        None \<Rightarrow> Inl AttributeError
      | Some modes \<Rightarrow>
          (case temperature' of
             None \<Rightarrow>
               (case sumup_zp modes of
                  Inl e \<Rightarrow> Inl e
                | Inr (zp, modes') \<Rightarrow> Inr (ZeroPoint zp, self\<lparr>mode := Some modes'\<rparr>))
           | Some T \<Rightarrow>
               (case sumup_T T modes of
                  Inl e \<Rightarrow> Inl e
                | Inr ((u, s, c), modes') \<Rightarrow>
                    Inr (Thermal u s c, self\<lparr>mode := Some modes'\<rparr>))))"

subsection \<open>thermodynamics\<close>

text \<open>
  The loop \<open>for T in self.temperature\<close>.  It returns the five lists \<open>U_vib\<close>,
  \<open>entropy\<close>, \<open>C_v\<close>, \<open>helmholtz\<close> (one row per temperature, one entry per
  q-point) and \<open>gibbs\<close> (per temperature, per pressure, per q-point).
  \<open>-entropy_t * T + U_vib_t + self.edft\<close> works entry by entry on the two arrays and
  adds the number \<open>self.edft\<close> to every entry.
\<close>

type_synonym thermo_rows =
  "pyfloat list list \<times> pyfloat list list \<times> pyfloat list list \<times> pyfloat list list \<times>
   pyfloat list list list"

fun temperature_loop ::
  "pyfloat list \<Rightarrow> pyfloat list \<Rightarrow> pyfloat \<Rightarrow> pyfloat \<Rightarrow> Harmonic \<Rightarrow>
   error + thermo_rows \<times> Harmonic" where
  "temperature_loop [] pressure' volume' edft' self = Inr (([], [], [], [], []), self)"
| "temperature_loop (T # Ts) pressure' volume' edft' self =
     (case phonon_sumup (Some T) self of
        Inl e \<Rightarrow> Inl e
      | Inr (ZeroPoint _, _) \<Rightarrow> Inl ValueError
      | Inr (Thermal U_vib_t entropy_t C_v_t, self1) \<Rightarrow>
          (let helm_t = map2 (\<lambda>s u. - s * T + u + edft') entropy_t U_vib_t;
               gibbs_t = map (\<lambda>p. map (\<lambda>h. p * volume' * 0.602214 + h) helm_t) pressure'
           in case temperature_loop Ts pressure' volume' edft' self1 of
                Inl e \<Rightarrow> Inl e
              | Inr ((U, S, C, H, G), self2) \<Rightarrow>
                  Inr ((U_vib_t # U, entropy_t # S, C_v_t # C, helm_t # H, gibbs_t # G),
                       self2)))"

text \<open>
  \<open>np.transpose\<close> of an array of shape \<open>(m, n)\<close> given as \<open>m\<close> rows, and
  \<open>np.transpose(_, (2, 0, 1))\<close> of an array of shape \<open>(m, k, n)\<close>; \<open>n\<close> is passed,
  since the rows of an empty list do not tell it.  \<open>np.sum(_, axis=0)\<close> of an array of
  shape \<open>(m, n)\<close> and of one of shape \<open>(m, n, k)\<close>.
\<close>

definition np_transpose :: "nat \<Rightarrow> 'a list list \<Rightarrow> 'a list list" where
  "np_transpose n rows = map (\<lambda>j. map (\<lambda>row. row ! j) rows) [0..<n]"

definition np_transpose_201 :: "nat \<Rightarrow> 'a list list list \<Rightarrow> 'a list list list" where
  "np_transpose_201 n a = map (\<lambda>q. map (\<lambda>a_t. map (\<lambda>a_tp. a_tp ! q) a_t) a) [0..<n]"

definition np_sum_axis0 :: "nat \<Rightarrow> pyfloat list list \<Rightarrow> pyfloat list" where
  "np_sum_axis0 n rows = map (\<lambda>j. sum_list (map (\<lambda>row. row ! j) rows)) [0..<n]"

definition np_sum_axis0_3d :: "nat \<Rightarrow> nat \<Rightarrow> pyfloat list list list \<Rightarrow> pyfloat list list" where
  "np_sum_axis0_3d n k a =
     map (\<lambda>i. map (\<lambda>j. sum_list (map (\<lambda>a_q. a_q ! i ! j) a)) [0..<k]) [0..<n]"

text \<open>
  \<open>thermodynamics\<close> returns the object with the six results as attributes, or the
  exception raised.  The transposition of \<open>gibbs\<close> needs three axes: with no
  temperature or no pressure the array has fewer, and NumPy raises \<open>ValueError\<close>.
\<close>

definition thermodynamics :: "bool \<Rightarrow> Harmonic \<Rightarrow> error + Harmonic" where
  "thermodynamics sumphonon self =
     (case phonon_sumup None self of
        Inl e \<Rightarrow> Inl e
      | Inr (Thermal _ _ _, _) \<Rightarrow> Inl ValueError
      | Inr (ZeroPoint zp, self0) \<Rightarrow>
          (let self1 = self0\<lparr>zp_energy := Some zp\<rparr> in
           case (temperature self1, pressure self1, volume self1, edft self1) of
             (Some Ts, Some Ps, Some V, Some E) \<Rightarrow>
               (case temperature_loop Ts Ps V E self1 of
                  Inl e \<Rightarrow> Inl e
                | Inr ((U, S, C, H, G), self2) \<Rightarrow>
                    if Ts = [] \<or> Ps = [] then Inl ValueError
                    else
                      (let nq = length zp; nT = length Ts; nP = length Ps;
                           U_vib' = np_transpose nq U;
                           entropy' = np_transpose nq S;
                           C_v' = np_transpose nq C;
                           helmholtz' = np_transpose nq H;
                           gibbs' = np_transpose_201 nq G
                       in if sumphonon then
                            Inr (self2\<lparr>U_vib := Some [np_sum_axis0 nT U_vib'],
                                        entropy := Some [np_sum_axis0 nT entropy'],
                                        C_v := Some [np_sum_axis0 nT C_v'],
                                        helmholtz := Some [np_sum_axis0 nT helmholtz'],
                                        gibbs := Some [np_sum_axis0_3d nT nP gibbs'],
                                        nqpoint := Some 1,
                                        qpoint := Some [[0, 0, 0]]\<rparr>)
                          else
                            Inr (self2\<lparr>U_vib := Some U_vib',
                                        entropy := Some entropy',
                                        C_v := Some C_v',
                                        helmholtz := Some helmholtz',
                                        gibbs := Some gibbs'\<rparr>)))
           | _ \<Rightarrow> Inl AttributeError))"

subsection \<open>from_file\<close>

text \<open>
  Modelled from the spec: what the inherited reading methods (\<open>read_cry_output\<close>,
  \<open>get_mode\<close>, \<open>clean_imaginary\<close>) and \<open>generate_structure\<close> leave on the object
  for the rest of \<open>from_file\<close>: the electronic energies (one per state of the
  calculation), the q-points, the frequencies in THz per q-point and mode, and the cell
  volume.
\<close>

record Crystal_output =
  out_edft :: "pyfloat list"
  out_nqpoint :: nat
  out_qpoint :: "pyfloat list list"
  out_frequency :: "pyfloat list list"
  out_volume :: pyfloat

text \<open>
  \<open>from_file\<close> returns a message or the object itself; the model returns the message
  (\<open>None\<close> where the object is returned) and the object as the call leaves it, or the
  exception \<open>thermodynamics\<close> raised.  Writing the report file changes nothing of the
  object.
\<close>

definition from_file ::
  "Crystal_output \<Rightarrow> pyfloat list \<Rightarrow> pyfloat list \<Rightarrow> bool \<Rightarrow> Harmonic \<Rightarrow>
   error + string option \<times> Harmonic" where
  "from_file out temperature' pressure' write_out self =
     (if volume self \<noteq> None then
        Inr (Some ''ERROR: Data exists. Cannot overwriting the existing data.'', self)
      else
        (let self1 = self\<lparr>nqpoint := Some (out_nqpoint out),
                           qpoint := Some (out_qpoint out),
                           temperature := Some temperature',
                           pressure := Some pressure',
                           volume := Some (out_volume out)\<rparr>
         in if length (out_edft out) \<noteq> 1 then
              Inr (Some ''ERROR: Only a single frequency calculation is premitted.'', self1)
            else
              (let self2 = self1\<lparr>
                     edft := Some (out_edft out ! 0),
                     mode := Some (map (\<lambda>qpoint.
                                map (\<lambda>(m, freq). Mode_init (int m + 1) [freq] [out_volume out] [])
                                  (enumerate 0 qpoint))
                              (out_frequency out))\<rparr>
               in if write_out then
                    (case thermodynamics True self2 of
                       Inl e \<Rightarrow> Inl e
                     | Inr self3 \<Rightarrow> Inr (None, self3))
                  else Inr (None, self2))))"

section \<open>The formulas over the real numbers\<close>

text \<open>
  The values of \<open>hbar_freq\<close> and of \<open>kb_t / temperature\<close> on numbers, the
  expressions \<open>get_entropy\<close> and \<open>get_C_v\<close> evaluate for a frequency and a
  temperature that are numbers above 0, where \<open>np.exp\<close> stays within \<open>DBL_MAX\<close>
  (\<open>entropy_r\<close>, \<open>C_v_r\<close>), and the two functions of
  the reduced variable \<open>x = hbar_freq / kb_t\<close> they come to.
\<close>

definition hbar_r :: "real \<Rightarrow> real" where
  "hbar_r w = w * 6.022141 * 0.06626070 / 2 / pi"

definition kb_r :: real where
  "kb_r = 0.001380649 * 6.022141"

definition entropy_fn :: "real \<Rightarrow> real" where
  "entropy_fn x = x / (exp x - 1) - ln (1 - 1 / exp x)"


definition entropy_r :: "real \<Rightarrow> real \<Rightarrow> real" where
  "entropy_r w t =
     kb_r * t * (hbar_r w / (kb_r * t) / (exp (hbar_r w / (kb_r * t)) - 1)
                 - ln (1 - 1 / exp (hbar_r w / (kb_r * t)))) / t * 1000"


section \<open>Sums over a q-point\<close>

text \<open>
  The value a method call returns (\<open>NaN\<close> stands in where it reports an error), and the
  modes the formulas are meant for: \<open>ncalc = 1\<close> with one stored frequency.  A mode is
  \<open>counted\<close> when the test of \<open>phonon_sumup\<close> lets it into the sums.
\<close>

definition value_of :: "(error + pyfloat) \<times> Mode \<Rightarrow> pyfloat" where
  "value_of r = (case fst r of Inr v \<Rightarrow> v | Inl _ \<Rightarrow> NaN)"

definition single_sample :: "Mode \<Rightarrow> bool" where
  "single_sample m = (Mode.ncalc m = 1 \<and> length (Mode.frequency m) = 1)"

definition counted :: "Mode \<Rightarrow> bool" where
  "counted m = (not_translational m = Inr True)"

text \<open>The three values the loop body with a temperature adds for one mode.\<close>

definition thermal_values :: "pyfloat \<Rightarrow> Mode \<Rightarrow> pyfloat \<times> pyfloat \<times> pyfloat" where
  "thermal_values T m =
     (value_of (get_U_vib T m), value_of (get_entropy T m), value_of (get_C_v T m))"

text \<open>
  The sums of one q-point over its counted modes, each mode taken as the loop finds it.
\<close>

definition zp_contribution :: "Mode list \<Rightarrow> pyfloat" where
  "zp_contribution qp = sum_list (map (\<lambda>m. value_of (get_zp_energy m)) (filter counted qp))"

definition U_contribution :: "pyfloat \<Rightarrow> Mode list \<Rightarrow> pyfloat" where
  "U_contribution T qp = sum_list (map (\<lambda>m. value_of (get_U_vib T m)) (filter counted qp))"

definition S_contribution :: "pyfloat \<Rightarrow> Mode list \<Rightarrow> pyfloat" where
  "S_contribution T qp = sum_list (map (\<lambda>m. value_of (get_entropy T m)) (filter counted qp))"

definition C_contribution :: "pyfloat \<Rightarrow> Mode list \<Rightarrow> pyfloat" where
  "C_contribution T qp = sum_list (map (\<lambda>m. value_of (get_C_v T m)) (filter counted qp))"

text \<open>
  \<open>fresh\<close> is a mode without a cached zero-point energy, and \<open>U_q\<close> the sum of the
  internal energies of the counted modes computed from their frequencies alone.
  \<open>evolved m' m\<close>: the object \<open>m'\<close> is \<open>m\<close> after method calls (same single
  frequency).  \<open>settled\<close>: a counted mode caches the zero-point energy of its frequency.
\<close>

definition fresh :: "Mode \<Rightarrow> Mode" where
  "fresh m = m\<lparr>Mode.zp_energy := None\<rparr>"

definition U_q :: "pyfloat \<Rightarrow> Mode list \<Rightarrow> pyfloat" where
  "U_q T qp = sum_list (map (\<lambda>m. value_of (get_U_vib T (fresh m))) (filter counted qp))"

definition evolved :: "Mode \<Rightarrow> Mode \<Rightarrow> bool" where
  "evolved m' m = (single_sample m' \<and> Mode.frequency m' = Mode.frequency m)"

definition settled :: "Mode \<Rightarrow> bool" where
  "settled m = (if counted m then zp_cache_ok m else True)"

section \<open>Free energies of a q-point\<close>

text \<open>
  The Helmholtz and Gibbs free energies of one q-point as the loop of
  \<open>thermodynamics\<close> computes them from the sums of that q-point.
\<close>

definition helm_q :: "pyfloat \<Rightarrow> pyfloat \<Rightarrow> Mode list \<Rightarrow> pyfloat" where
  "helm_q T E qp = - S_contribution T qp * T + U_q T qp + E"

definition gibbs_q :: "pyfloat \<Rightarrow> pyfloat \<Rightarrow> pyfloat \<Rightarrow> pyfloat \<Rightarrow> Mode list \<Rightarrow> pyfloat" where
  "gibbs_q T P V E qp = P * V * 0.602214 + helm_q T E qp"

text \<open>
  An engine ready for \<open>thermodynamics\<close>: the attributes the method reads exist, every
  mode holds one calculation sample, and neither grid is empty.
\<close>

definition populated ::
  "Harmonic \<Rightarrow> Mode list list \<Rightarrow> pyfloat list \<Rightarrow> pyfloat list \<Rightarrow> pyfloat \<Rightarrow> pyfloat \<Rightarrow> bool" where
  "populated self modes Ts Ps V E =
     (mode self = Some modes \<and> list_all (list_all single_sample) modes \<and>
      temperature self = Some Ts \<and> pressure self = Some Ps \<and>
      volume self = Some V \<and> edft self = Some E \<and> Ts \<noteq> [] \<and> Ps \<noteq> [])"

text \<open>
  The expression \<open>get_U_vib\<close> evaluates for a frequency and a temperature that are
  numbers above 0, where \<open>np.exp\<close> stays within \<open>DBL_MAX\<close>, on a mode without a
  cached zero-point energy.
\<close>

definition U_vib_r :: "real \<Rightarrow> real \<Rightarrow> real" where
  "U_vib_r w t = 0.5 * hbar_r w + hbar_r w / (exp (hbar_r w / (kb_r * t)) - 1)"

section \<open>Geometry: get_pcel and get_scel\<close>

text \<open>
  The geometry functions compute with exact real numbers.  A vector is the list of its
  three components, a matrix the list of its three rows: a lattice is the matrix whose
  rows are the lattice vectors.
\<close>

type_synonym vec = "real list"

type_synonym matrix = "real list list"

text \<open>
  The product of a row vector and a matrix, and of two matrices (\<open>@\<close>, \<open>np.dot\<close>);
  \<open>np.linalg.inv\<close> of a 3 by 3 matrix, which raises \<open>LinAlgError\<close> on a singular one.
\<close>

definition dot_vec :: "vec \<Rightarrow> matrix \<Rightarrow> vec" where
  "dot_vec v m =
     [v ! 0 * m ! 0 ! 0 + v ! 1 * m ! 1 ! 0 + v ! 2 * m ! 2 ! 0,
      v ! 0 * m ! 0 ! 1 + v ! 1 * m ! 1 ! 1 + v ! 2 * m ! 2 ! 1,
      v ! 0 * m ! 0 ! 2 + v ! 1 * m ! 1 ! 2 + v ! 2 * m ! 2 ! 2]"

definition matmul :: "matrix \<Rightarrow> matrix \<Rightarrow> matrix" where
  "matmul a b = map (\<lambda>row. dot_vec row b) a"

definition det3 :: "matrix \<Rightarrow> real" where
  "det3 m =
     m ! 0 ! 0 * (m ! 1 ! 1 * m ! 2 ! 2 - m ! 1 ! 2 * m ! 2 ! 1)
     - m ! 0 ! 1 * (m ! 1 ! 0 * m ! 2 ! 2 - m ! 1 ! 2 * m ! 2 ! 0)
     + m ! 0 ! 2 * (m ! 1 ! 0 * m ! 2 ! 1 - m ! 1 ! 1 * m ! 2 ! 0)"

definition np_linalg_inv :: "matrix \<Rightarrow> error + matrix" where
  "np_linalg_inv m =
     (let d = det3 m in
      if d = 0 then Inl LinAlgError
      else Inr
        [[(m ! 1 ! 1 * m ! 2 ! 2 - m ! 1 ! 2 * m ! 2 ! 1) / d,
          (m ! 0 ! 2 * m ! 2 ! 1 - m ! 0 ! 1 * m ! 2 ! 2) / d,
          (m ! 0 ! 1 * m ! 1 ! 2 - m ! 0 ! 2 * m ! 1 ! 1) / d],
         [(m ! 1 ! 2 * m ! 2 ! 0 - m ! 1 ! 0 * m ! 2 ! 2) / d,
          (m ! 0 ! 0 * m ! 2 ! 2 - m ! 0 ! 2 * m ! 2 ! 0) / d,
          (m ! 0 ! 2 * m ! 1 ! 0 - m ! 0 ! 0 * m ! 1 ! 2) / d],
         [(m ! 1 ! 0 * m ! 2 ! 1 - m ! 1 ! 1 * m ! 2 ! 0) / d,
          (m ! 0 ! 1 * m ! 2 ! 0 - m ! 0 ! 0 * m ! 2 ! 1) / d,
          (m ! 0 ! 0 * m ! 1 ! 1 - m ! 0 ! 1 * m ! 1 ! 0) / d]])"

text \<open>
  A pymatgen \<open>Structure\<close>, by the attributes the functions read: the lattice matrix,
  the periodicity flags of the three directions, the atomic numbers of the sites and
  their fractional coordinates.  \<open>cart_coords\<close> are the fractional coordinates times
  the lattice matrix, and \<open>Structure_cart\<close> is the constructor called with
  \<open>coords_are_cartesian=True\<close>, which keeps the coordinates as they are (no folding
  into the cell).
\<close>

record Structure =
  lattice :: matrix
  pbc :: "bool list"
  atomic_numbers :: "int list"
  frac_coords :: "vec list"

definition num_sites :: "Structure \<Rightarrow> nat" where
  "num_sites struc = length (frac_coords struc)"

definition cart_coords :: "Structure \<Rightarrow> vec list" where
  "cart_coords struc = map (\<lambda>f. dot_vec f (lattice struc)) (frac_coords struc)"

definition Structure_cart ::
  "matrix \<Rightarrow> bool list \<Rightarrow> int list \<Rightarrow> vec list \<Rightarrow> error + Structure" where
  "Structure_cart latt pbc' species coords =
     (case np_linalg_inv latt of
        Inl e \<Rightarrow> Inl e
      | Inr inv_matrix \<Rightarrow>
          Inr \<lparr>lattice = latt, pbc = pbc', atomic_numbers = species,
               frac_coords = map (\<lambda>c. dot_vec c inv_matrix) coords\<rparr>)"

text \<open>
  pymatgen's \<open>Structure.make_supercell(scaling_matrix)\<close>, with its defaults.  The new
  lattice is the scaling matrix times the old one and keeps its periodicity flags;
  every site is repeated at each lattice point of the old lattice inside the new cell
  (\<open>lattice_points_in_supercell\<close>: the integer points of the bounding box whose
  fractional coordinates in the new cell lie in [0, 1), up to 1e-10, counted against the
  determinant), site by site; the new sites are folded into the unit cell
  (\<open>to_unit_cell=True\<close>: each fractional coordinate along a periodic direction modulo
  1).  A structure without sites raises \<open>ValueError\<close>.  For a lattice periodic in all
  three directions this is what the source relies on: ``That forces origin back to
  (0.5,0.5,0.5)''.
\<close>

definition int_matrix :: "int list list \<Rightarrow> matrix" where
  "int_matrix m = map (map real_of_int) m"

definition lattice_points_in_supercell :: "int list list \<Rightarrow> error + vec list" where
  "lattice_points_in_supercell supercell_matrix =
     (let diagonals = [[0, 0, 0], [0, 0, 1], [0, 1, 0], [0, 1, 1],
                       [1, 0, 0], [1, 0, 1], [1, 1, 0], [1, 1, 1]];
          d_points = map (\<lambda>d. map (\<lambda>j. d ! 0 * supercell_matrix ! 0 ! j
                                        + d ! 1 * supercell_matrix ! 1 ! j
                                        + d ! 2 * supercell_matrix ! 2 ! j) [0, 1, 2])
                       diagonals;
          mins = map (\<lambda>j. Min (set (map (\<lambda>d. d ! j) d_points))) [0, 1, 2];
          maxes = map (\<lambda>j. Max (set (map (\<lambda>d. d ! j) d_points)) + 1) [0, 1, 2];
          all_points = [[real_of_int a, real_of_int b, real_of_int c].
                          a \<leftarrow> [mins ! 0 .. maxes ! 0 - 1],
                          b \<leftarrow> [mins ! 1 .. maxes ! 1 - 1],
                          c \<leftarrow> [mins ! 2 .. maxes ! 2 - 1]]
      in case np_linalg_inv (int_matrix supercell_matrix) of
           Inl e \<Rightarrow> Inl e
         | Inr inv_matrix \<Rightarrow>
             (let frac_points = map (\<lambda>p. dot_vec p inv_matrix) all_points;
                  tvects = filter (\<lambda>f. list_all (\<lambda>x. x < 1 - 1 / 10 ^ 10) f
                                     \<and> list_all (\<lambda>x. - (1 / 10 ^ 10) \<le> x) f) frac_points
              in if int (length tvects) = round \<bar>det3 (int_matrix supercell_matrix)\<bar>
                 then Inr tvects else Inl AssertionError))"

definition to_unit_cell :: "bool list \<Rightarrow> vec \<Rightarrow> vec" where
  "to_unit_cell periodic f = map (\<lambda>(p, x). if p then frac x else x) (zip periodic f)"

definition make_supercell :: "int list list \<Rightarrow> Structure \<Rightarrow> error + Structure" where
  "make_supercell scaling_matrix struc =
     (let new_lattice = matmul (int_matrix scaling_matrix) (lattice struc);
          sites = zip (atomic_numbers struc) (cart_coords struc)
      in case lattice_points_in_supercell scaling_matrix of
           Inl e \<Rightarrow> Inl e
         | Inr f_lat \<Rightarrow>
             if sites = [] then Inl ValueError
             else
               (case np_linalg_inv new_lattice of
                  Inl e \<Rightarrow> Inl e
                | Inr inv_matrix \<Rightarrow>
                    (let c_lat = map (\<lambda>f. dot_vec f new_lattice) f_lat;
                         new_sites =
                           concat (map (\<lambda>(z, coords).
                                     map (\<lambda>v. (z, to_unit_cell (pbc struc)
                                                    (dot_vec (map2 (+) coords v) inv_matrix)))
                                       c_lat)
                                   sites)
                     in Inr \<lparr>lattice = new_lattice, pbc = pbc struc,
                             atomic_numbers = map fst new_sites,
                             frac_coords = map snd new_sites\<rparr>)))"

text \<open>
  The loop \<open>for i in range(natom): for j in range(ndimen): all_coords[i, 0:ndimen] -=
  0.5 * scel_mx[j, 0:ndimen]\<close> of \<open>get_pcel\<close> and \<open>get_scel\<close>: the first
  \<open>natom\<close> rows are shifted, the others are left; a row index beyond the array raises
  \<open>IndexError\<close>.
\<close>

definition shift_row :: "nat \<Rightarrow> matrix \<Rightarrow> vec \<Rightarrow> vec" where
  "shift_row ndimen scel_mx row =
     foldl (\<lambda>r j. map (\<lambda>k. if k < ndimen then r ! k - 0.5 * scel_mx ! j ! k else r ! k)
                     [0..<length r])
       row [0..<ndimen]"

definition shift_origin :: "nat \<Rightarrow> nat \<Rightarrow> matrix \<Rightarrow> vec list \<Rightarrow> error + vec list" where
  "shift_origin natom ndimen scel_mx all_coords =
     (if length all_coords < natom then Inl IndexError
      else Inr (map (shift_row ndimen scel_mx) (take natom all_coords) @ drop natom all_coords))"

text \<open>
  \<open>ndarray.round(decimals)\<close>: scale, round to the nearest integer (a tie goes to the
  even one), scale back.
\<close>

definition np_rint :: "real \<Rightarrow> int" where
  "np_rint x =
     (let f = \<lfloor>x\<rfloor>; d = x - of_int f
      in if d < 1 / 2 then f else if 1 / 2 < d then f + 1 else if even f then f else f + 1)"

definition np_round :: "nat \<Rightarrow> real \<Rightarrow> real" where
  "np_round decimals x = of_int (np_rint (x * 10 ^ decimals)) / 10 ^ decimals"

text \<open>
  The loop of \<open>get_pcel\<close> over the rounded coordinates: a site with a coordinate
  among the first \<open>ndimen\<close> that is \<open>> 0.5\<close> or \<open><= -0.5\<close> is skipped, any other is
  appended with its species.
\<close>

fun pcel_sites :: "nat \<Rightarrow> (int \<times> vec) list \<Rightarrow> vec list \<times> int list" where
  "pcel_sites ndimen [] = ([], [])"
| "pcel_sites ndimen ((z, coord) # rest) =
     (if list_ex (\<lambda>x. 0.5 < x) (take ndimen coord) \<or> list_ex (\<lambda>x. x \<le> - 0.5) (take ndimen coord)
      then pcel_sites ndimen rest
      else (case pcel_sites ndimen rest of
              (pcel_coords, pcel_species) \<Rightarrow> (coord # pcel_coords, z # pcel_species)))"

text \<open>
  \<open>get_pcel\<close> up to its loop: the lattice of the primitive cell, the species and the
  fractional coordinates of all sites in that lattice (\<open>all_coords\<close> before rounding);
  then \<open>get_pcel\<close> itself, and \<open>get_scel\<close>.  In both, \<open>natom\<close> is the number of
  sites before \<open>make_supercell\<close> runs.
\<close>

definition pcel_all_coords ::
  "Structure \<Rightarrow> int list list \<Rightarrow> error + matrix \<times> int list \<times> vec list" where
  "pcel_all_coords struc smx =
     (let ndimen = count_list (pbc struc) True;
          natom = num_sites struc
      in case make_supercell [[1, 0, 0], [0, 1, 0], [0, 0, 1]] struc of
           Inl e \<Rightarrow> Inl e
         | Inr struc1 \<Rightarrow>
             (case np_linalg_inv (int_matrix smx) of
                Inl e \<Rightarrow> Inl e
              | Inr shrink_mx \<Rightarrow>
                  (let scel_mx = lattice struc1;
                       all_species = atomic_numbers struc1
                   in case shift_origin natom ndimen scel_mx (cart_coords struc1) of
                        Inl e \<Rightarrow> Inl e
                      | Inr all_coords \<Rightarrow>
                          (let pcel_mx = matmul shrink_mx scel_mx
                           in case np_linalg_inv pcel_mx of
                                Inl e \<Rightarrow> Inl e
                              | Inr inv_pcel \<Rightarrow>
                                  Inr (pcel_mx, all_species,
                                       map (\<lambda>c. dot_vec c inv_pcel) all_coords)))))"

definition get_pcel :: "Structure \<Rightarrow> int list list \<Rightarrow> error + Structure" where
  "get_pcel struc smx =
     (case pcel_all_coords struc smx of
        Inl e \<Rightarrow> Inl e
      | Inr (pcel_mx, all_species, all_coords) \<Rightarrow>
          (case pcel_sites (count_list (pbc struc) True)
                  (zip all_species (map (map (np_round 12)) all_coords)) of
             (pcel_coords, pcel_species) \<Rightarrow>
               Inr \<lparr>lattice = pcel_mx, pbc = pbc struc, atomic_numbers = pcel_species,
                    frac_coords = pcel_coords\<rparr>))"

definition get_scel :: "Structure \<Rightarrow> int list list \<Rightarrow> error + Structure" where
  "get_scel struc smx =
     (let ndimen = count_list (pbc struc) True;
          natom = num_sites struc
      in case make_supercell smx struc of
           Inl e \<Rightarrow> Inl e
         | Inr struc1 \<Rightarrow>
             (let scel_mx = lattice struc1;
                  all_species = atomic_numbers struc1
              in case shift_origin natom ndimen scel_mx (cart_coords struc1) of
                   Inl e \<Rightarrow> Inl e
                 | Inr all_coords \<Rightarrow>
                     Structure_cart (lattice struc1) (pbc struc) all_species all_coords))"

text \<open>A simple cubic cell of edge 1 with one atom (polonium) at the origin.\<close>

definition cubic :: Structure where
  "cubic = \<lparr>lattice = [[1, 0, 0], [0, 1, 0], [0, 0, 1]], pbc = [True, True, True],
             atomic_numbers = [84], frac_coords = [[0, 0, 0]]\<rparr>"

text \<open>
  The half-open interval of the test, the sites the loop keeps, and the convention of
  CRYSTAL that the periodic directions come first.
\<close>

definition in_cell :: "real \<Rightarrow> bool" where
  "in_cell x = (- 0.5 < x \<and> x \<le> 0.5)"

definition kept :: "nat \<Rightarrow> vec \<Rightarrow> bool" where
  "kept ndimen coord = list_all in_cell (take ndimen coord)"

definition periodic_first :: "bool list \<Rightarrow> bool" where
  "periodic_first p =
     (length p = 3 \<and>
      p = replicate (count_list p True) True @ replicate (3 - count_list p True) False)"

text \<open>The expansion matrix \<open>diag(2, 2, 2)\<close>, the identity and the supercell of \<open>cubic\<close>.\<close>

abbreviation "diag2 \<equiv> [[2, 0, 0], [0, 2, 0], [0, 0, 2::int]]"

abbreviation "ident \<equiv> [[1, 0, 0], [0, 1, 0], [0, 0, 1::int]]"

abbreviation "scel8 \<equiv> \<lparr>lattice = [[2, 0, 0], [0, 2, 0], [0, 0, 2]], pbc = [True, True, True],
        atomic_numbers = [84, 84, 84, 84, 84, 84, 84, 84],
        frac_coords =
          [[- (1 / 2), - (1 / 2), - (1 / 2)], [0, 0, 1 / 2], [0, 1 / 2, 0],
           [0, 1 / 2, 1 / 2], [1 / 2, 0, 0], [1 / 2, 0, 1 / 2],
           [1 / 2, 1 / 2, 0], [1 / 2, 1 / 2, 1 / 2::real]]\<rparr>"

text \<open>
  A supercell of edge 2 whose sites lie at the centre of the primitive cell and next to its
  faces, by 2e-13 and 3e-13 of the supercell edge; and a cell periodic along its second
  and third directions only.
\<close>

abbreviation "near_faces \<equiv> \<lparr>lattice = [[2, 0, 0], [0, 2, 0], [0, 0, 2]],
        pbc = [True, True, True], atomic_numbers = [1, 2, 3, 4, 5],
        frac_coords =
          [[1 / 2, 1 / 2, 1 / 2], [0.7500000000002, 1 / 2, 1 / 2],
           [0.2500000000002, 1 / 2, 1 / 2], [0.7500000000003, 1 / 2, 1 / 2],
           [1 / 4, 1 / 2, 1 / 2::real]]\<rparr>"

abbreviation "yz_periodic \<equiv> \<lparr>lattice = [[1, 0, 0], [0, 1, 0], [0, 0, 1]],
        pbc = [False, True, True], atomic_numbers = [84],
        frac_coords = [[1 / 2, 1 / 2, 9 / 10::real]]\<rparr>"

section \<open>Arithmetic of the floating-point model\<close>

lemma numeral_pyfloat: "(numeral k :: pyfloat) = Fin (numeral k)"
proof (induction k)
  case One
  show ?case by (simp only: numeral_One one_pyfloat_def)
next
  case (Bit0 k)
  have "(numeral (num.Bit0 k) :: pyfloat) = numeral k + numeral k"
    by (rule numeral_Bit0)
  also have "\<dots> = Fin (numeral k + numeral k)"
    by (simp only: Bit0.IH plus_pyfloat.simps)
  also have "(numeral k + numeral k :: real) = numeral (num.Bit0 k)"
    by (simp only: numeral_Bit0)
  finally show ?case .
next
  case (Bit1 k)
  have "(numeral (num.Bit1 k) :: pyfloat) = numeral k + numeral k + 1"
    by (rule numeral_Bit1)
  also have "\<dots> = Fin (numeral k + numeral k + 1)"
    by (simp only: Bit1.IH plus_pyfloat.simps one_pyfloat_def)
  also have "(numeral k + numeral k + 1 :: real) = numeral (num.Bit1 k)"
    by (simp only: numeral_Bit1)
  finally show ?case .
qed

lemma power_pyfloat: "Fin a ^ n = Fin (a ^ n)"
  by (induction n) (simp_all add: one_pyfloat_def)

lemmas pyfloat_simps = numeral_pyfloat power_pyfloat zero_pyfloat_def one_pyfloat_def np_pi_def

lemma frequency_init_Fin: "Mode.frequency (Mode_init r [Fin f] v e) = [Fin (f * 2 * pi)]"
  by (simp add: Mode_init_def pyfloat_simps)

lemma ncalc_init: "Mode.ncalc (Mode_init r [f] v e) \<le> 1"
  by (simp add: Mode_init_def)

lemma get_zp_energy_frequency:
  "Mode.frequency (snd (get_zp_energy m)) = Mode.frequency m"
  "Mode.ncalc (snd (get_zp_energy m)) = Mode.ncalc m"
  by (simp_all add: get_zp_energy_def Let_def split: list.splits)

lemma zp_cache_ok_init: "zp_cache_ok (Mode_init r f v e)"
  by (simp add: zp_cache_ok_def Mode_init_def)

lemma zp_cache_ok_get_zp_energy: "zp_cache_ok m \<Longrightarrow> zp_cache_ok (snd (get_zp_energy m))"
  by (auto simp add: zp_cache_ok_def get_zp_energy_def Let_def split: list.splits option.splits if_splits)

lemma zp_cache_ok_get_U_vib: "zp_cache_ok m \<Longrightarrow> zp_cache_ok (snd (get_U_vib T m))"
  by (auto simp add: zp_cache_ok_def get_U_vib_def get_zp_energy_def Let_def split: list.splits option.splits if_splits)

lemma zp_cache_ok_get_entropy: "zp_cache_ok m \<Longrightarrow> zp_cache_ok (snd (get_entropy T m))"
  by (auto simp add: zp_cache_ok_def get_entropy_def get_zp_energy_def Let_def split: list.splits option.splits if_splits)

lemma zp_cache_ok_get_C_v: "zp_cache_ok m \<Longrightarrow> zp_cache_ok (snd (get_C_v T m))"
  by (auto simp add: zp_cache_ok_def get_C_v_def get_zp_energy_def Let_def split: list.splits option.splits if_splits)


section \<open>Zero temperature\<close>

text \<open>
  Claim C5.  For a mode with exactly one calculation sample (\<open>ncalc = 1\<close>, one stored
  frequency) and any frequency, also \<open>NaN\<close>: at temperature 0, \<open>get_U_vib\<close> returns
  the very value \<open>get_zp_energy\<close> returns, \<open>get_entropy\<close> returns 0 and
  \<open>get_C_v\<close> returns 0, and none of them reports an error.  The hypothesis
  \<open>zp_cache_ok\<close> holds of every object made by \<open>Mode_init\<close> and is kept by the
  four methods (lemmas \<open>zp_cache_ok_init\<close> to \<open>zp_cache_ok_get_C_v\<close>).
\<close>

theorem zero_temperature_values:
  assumes "Mode.ncalc m = 1" and "length (Mode.frequency m) = 1" and "zp_cache_ok m"
  shows "(\<exists>z. fst (get_zp_energy m) = Inr z \<and> fst (get_U_vib 0 m) = Inr z)
       \<and> fst (get_entropy 0 m) = Inr 0
       \<and> fst (get_C_v 0 m) = Inr 0"
proof -
  from assms(2) obtain f where f: "Mode.frequency m = [f]"
    by (cases "Mode.frequency m") auto
  have zp: "fst (get_zp_energy m) = Inr (0.5 * hbar_freq f)"
    using assms(1) f by (simp add: get_zp_energy_def Let_def)
  have u: "fst (get_U_vib 0 m) = Inr (0.5 * hbar_freq f)"
  proof (cases "Mode.zp_energy m")
    case None
    then show ?thesis
      using assms(1) f by (simp add: get_U_vib_def get_zp_energy_def Let_def)
  next
    case (Some z)
    with assms(3) zp have "z = 0.5 * hbar_freq f"
      by (simp add: zp_cache_ok_def)
    with Some show ?thesis
      using assms(1) by (simp add: get_U_vib_def)
  qed
  have s: "fst (get_entropy 0 m) = Inr 0"
    using assms(1) by (simp add: get_entropy_def)
  have c: "fst (get_C_v 0 m) = Inr 0"
    using assms(1) by (simp add: get_C_v_def)
  from zp u s c show ?thesis by simp
qed

theorem zero_temperature_values_witness:
  "(\<exists>z. fst (get_zp_energy (Mode_init 1 [Fin 5] [Fin 50] [])) = Inr z
        \<and> fst (get_U_vib 0 (Mode_init 1 [Fin 5] [Fin 50] [])) = Inr z)
   \<and> fst (get_entropy 0 (Mode_init 1 [Fin 5] [Fin 50] [])) = Inr 0
   \<and> fst (get_C_v 0 (Mode_init 1 [Fin 5] [Fin 50] [])) = Inr 0"
proof -
  have 1: "Mode.ncalc (Mode_init 1 [Fin 5] [Fin 50] []) = 1"
    by (simp add: Mode_init_def)
  have 2: "length (Mode.frequency (Mode_init 1 [Fin 5] [Fin 50] [])) = 1"
    by (simp add: Mode_init_def)
  show ?thesis
    using zero_temperature_values [OF 1 2 zp_cache_ok_init] .
qed

section \<open>Entropy and heat capacity as functions of the temperature\<close>

lemma hbar_freq_Fin: "hbar_freq (Fin w) = Fin (hbar_r w)"
  by (simp add: hbar_freq_def hbar_r_def pyfloat_simps)

lemma kb_t_Fin: "kb_t (Fin t) = Fin (kb_r * t)"
  by (simp add: kb_t_def kb_r_def pyfloat_simps)

lemma hbar_r_pos: "0 < w \<Longrightarrow> 0 < hbar_r w"
  by (simp add: hbar_r_def)

lemma kb_r_pos: "0 < kb_r"
  by (simp add: kb_r_def)

lemma reduced_pos: "0 < w \<Longrightarrow> 0 < t \<Longrightarrow> 0 < hbar_r w / (kb_r * t)"
  using hbar_r_pos kb_r_pos by simp

lemma get_entropy_Fin:
  assumes "Mode.ncalc m \<le> 1" "Mode.frequency m = Fin w # fs" "0 < w" "0 < t"
    and "exp (hbar_r w / (kb_r * t)) \<le> DBL_MAX"
  shows "fst (get_entropy (Fin t) m) = Inr (Fin (entropy_r w t))"
proof -
  have e: "1 < exp (hbar_r w / (kb_r * t))"
    using reduced_pos [OF assms(3,4)] by simp
  have k: "kb_r * t \<noteq> 0" using kb_r_pos assms by simp
  from e have p: "0 < 1 - 1 / exp (hbar_r w / (kb_r * t))"
    by (simp add: field_simps)
  from p have l: "\<not> 1 - 1 / exp (hbar_r w / (kb_r * t)) < 0"
    by linarith
  from p have l': "1 - 1 / exp (hbar_r w / (kb_r * t)) \<noteq> 0"
    by linarith
  have h: "hbar_r w \<noteq> 0" using hbar_r_pos [OF assms(3)] by simp
  have r: "\<not> DBL_MAX < exp (hbar_r w / (kb_r * t))" using assms(5) by simp
  show ?thesis
    using assms(1,2,4) e k l l' h r
    by (simp add: get_entropy_def Let_def hbar_freq_Fin kb_t_Fin pyfloat_simps entropy_r_def)
qed




lemma entropy_r_eq:
  assumes "0 < t"
  shows "entropy_r w t = 1000 * kb_r * entropy_fn (hbar_r w / (kb_r * t))"
  using assms by (simp add: entropy_r_def entropy_fn_def)


lemma entropy_fn_pos:
  assumes "0 < x"
  shows "0 < entropy_fn x"
proof -
  have e: "1 < exp x" using assms by simp
  then have "0 < x / (exp x - 1)" using assms by simp
  moreover have "0 < 1 - 1 / exp x" "1 - 1 / exp x < 1"
    using e by (simp_all add: field_simps)
  then have "ln (1 - 1 / exp x) < 0" by simp
  ultimately show ?thesis by (simp add: entropy_fn_def)
qed










lemma entropy_r_pos: "0 < w \<Longrightarrow> 0 < t \<Longrightarrow> 0 < entropy_r w t"
  using entropy_fn_pos [OF reduced_pos] kb_r_pos by (simp add: entropy_r_eq)





lemma get_entropy_zero: "Mode.ncalc m \<le> 1 \<Longrightarrow> fst (get_entropy (Fin 0) m) = Inr (Fin 0)"
  by (simp add: get_entropy_def zero_pyfloat_def)



lemma DBL_MAX_ge: "9 \<le> DBL_MAX"
  by (simp add: DBL_MAX_def)

lemma exp_in_range:
  assumes "x \<le> 1"
  shows "exp x \<le> DBL_MAX" and "(exp x)\<^sup>2 \<le> DBL_MAX"
proof -
  have e: "exp x \<le> 3"
    using assms exp_le by (meson exp_le_cancel_iff order_trans)
  have p: "0 \<le> exp x" by simp
  from e DBL_MAX_ge show "exp x \<le> DBL_MAX" by linarith
  have "(exp x)\<^sup>2 \<le> 3\<^sup>2"
    using e p by (rule power_mono)
  with DBL_MAX_ge show "(exp x)\<^sup>2 \<le> DBL_MAX" by simp
qed






lemma reduced_init:
  assumes "t \<noteq> 0"
  shows "hbar_r (f * 2 * pi) / (kb_r * t) = f * 0.06626070 / (0.001380649 * t)"
  using assms by (simp add: hbar_r_def kb_r_def field_simps)





section \<open>The sums of phonon_sumup\<close>

lemma single_sample_frequency:
  "single_sample m \<Longrightarrow> \<exists>f. Mode.frequency m = [f]"
  by (cases "Mode.frequency m") (auto simp: single_sample_def)

lemma not_translational_single:
  "single_sample m \<Longrightarrow> not_translational m = Inr (counted m)"
  by (auto simp: counted_def not_translational_def dest!: single_sample_frequency)

lemma get_zp_energy_single:
  assumes "single_sample m"
  shows "get_zp_energy m = (Inr (value_of (get_zp_energy m)), snd (get_zp_energy m))"
    and "single_sample (snd (get_zp_energy m))"
    and "Mode.frequency (snd (get_zp_energy m)) = Mode.frequency m"
  using single_sample_frequency [OF assms] assms
  by (auto simp: get_zp_energy_def value_of_def single_sample_def Let_def)

lemma get_U_vib_single:
  assumes "single_sample m"
  shows "get_U_vib T m = (Inr (value_of (get_U_vib T m)), snd (get_U_vib T m))"
    and "single_sample (snd (get_U_vib T m))"
    and "Mode.frequency (snd (get_U_vib T m)) = Mode.frequency m"
  using single_sample_frequency [OF assms] assms
  by (auto simp: get_U_vib_def get_zp_energy_def value_of_def single_sample_def Let_def
      split: option.splits)

lemma get_entropy_single:
  assumes "single_sample m"
  shows "get_entropy T m = (Inr (value_of (get_entropy T m)), snd (get_entropy T m))"
    and "single_sample (snd (get_entropy T m))"
    and "Mode.frequency (snd (get_entropy T m)) = Mode.frequency m"
  using single_sample_frequency [OF assms] assms
  by (auto simp: get_entropy_def value_of_def single_sample_def Let_def)

lemma get_C_v_single:
  assumes "single_sample m"
  shows "get_C_v T m = (Inr (value_of (get_C_v T m)), snd (get_C_v T m))"
    and "single_sample (snd (get_C_v T m))"
    and "Mode.frequency (snd (get_C_v T m)) = Mode.frequency m"
  using single_sample_frequency [OF assms] assms
  by (auto simp: get_C_v_def value_of_def single_sample_def Let_def)

lemma get_entropy_value_cong:
  "Mode.ncalc m' = Mode.ncalc m \<Longrightarrow> Mode.frequency m' = Mode.frequency m \<Longrightarrow>
   value_of (get_entropy T m') = value_of (get_entropy T m)"
  by (simp add: get_entropy_def value_of_def Let_def split: list.splits)

lemma get_C_v_value_cong:
  "Mode.ncalc m' = Mode.ncalc m \<Longrightarrow> Mode.frequency m' = Mode.frequency m \<Longrightarrow>
   value_of (get_C_v T m') = value_of (get_C_v T m)"
  by (simp add: get_C_v_def value_of_def Let_def split: list.splits)

lemma mode_thermal_single:
  assumes "single_sample m"
  shows "\<exists>m'. mode_thermal T m = Inr (thermal_values T m, m')
            \<and> single_sample m' \<and> Mode.frequency m' = Mode.frequency m"
proof -
  let ?m1 = "snd (get_U_vib T m)"
  let ?m2 = "snd (get_entropy T ?m1)"
  let ?m3 = "snd (get_C_v T ?m2)"
  note u = get_U_vib_single [OF assms, of T]
  note s = get_entropy_single [OF u(2), of T]
  note c = get_C_v_single [OF s(2), of T]
  have n1: "Mode.ncalc ?m1 = Mode.ncalc m" using u(2) assms by (simp add: single_sample_def)
  have n2: "Mode.ncalc ?m2 = Mode.ncalc m" using s(2) assms by (simp add: single_sample_def)
  have vs: "value_of (get_entropy T ?m1) = value_of (get_entropy T m)"
    by (rule get_entropy_value_cong [OF n1 u(3)])
  have vc: "value_of (get_C_v T ?m2) = value_of (get_C_v T m)"
    by (rule get_C_v_value_cong [OF n2]) (simp add: s(3) u(3))
  have "mode_thermal T m = Inr (thermal_values T m, ?m3)"
    unfolding mode_thermal_def thermal_values_def
    by (subst u(1), simp, subst s(1), simp, subst c(1), simp add: vs vc)
  moreover have "Mode.frequency ?m3 = Mode.frequency m"
    by (simp add: c(3) s(3) u(3))
  ultimately show ?thesis using c(2) by blast
qed

lemma evolved_refl: "single_sample m \<Longrightarrow> evolved m m"
  by (simp add: evolved_def)

lemma evolved_trans: "evolved m'' m' \<Longrightarrow> evolved m' m \<Longrightarrow> evolved m'' m"
  by (simp add: evolved_def)

lemma evolved_counted: "evolved m' m \<Longrightarrow> counted m' = counted m"
  by (simp add: evolved_def counted_def not_translational_def)

lemma evolved_values:
  assumes "evolved m' m" "single_sample m"
  shows "value_of (get_zp_energy m') = value_of (get_zp_energy m)"
    and "value_of (get_entropy T m') = value_of (get_entropy T m)"
    and "value_of (get_C_v T m') = value_of (get_C_v T m)"
    and "value_of (get_U_vib T (fresh m')) = value_of (get_U_vib T (fresh m))"
  using assms
  by (auto simp: evolved_def single_sample_def value_of_def get_zp_energy_def get_entropy_def
      get_C_v_def get_U_vib_def fresh_def Let_def split: list.splits)

lemma settled_U_value:
  assumes "single_sample m" "zp_cache_ok m"
  shows "value_of (get_U_vib T m) = value_of (get_U_vib T (fresh m))"
  using assms single_sample_frequency [OF assms(1)]
  by (auto simp: single_sample_def zp_cache_ok_def value_of_def get_zp_energy_def get_U_vib_def
      fresh_def Let_def split: option.splits)

lemma get_zp_energy_evolved:
  assumes "single_sample m"
  shows "evolved (snd (get_zp_energy m)) m" and "zp_cache_ok (snd (get_zp_energy m))"
  using single_sample_frequency [OF assms] assms
  by (auto simp: evolved_def single_sample_def zp_cache_ok_def get_zp_energy_def Let_def)

lemma mode_thermal_evolved:
  assumes "single_sample m"
  shows "\<exists>m'. mode_thermal T m = Inr (thermal_values T m, m') \<and> evolved m' m
            \<and> (if zp_cache_ok m then zp_cache_ok m' else True)"
proof -
  let ?m1 = "snd (get_U_vib T m)"
  let ?m2 = "snd (get_entropy T ?m1)"
  let ?m3 = "snd (get_C_v T ?m2)"
  note u = get_U_vib_single [OF assms, of T]
  note s = get_entropy_single [OF u(2), of T]
  note c = get_C_v_single [OF s(2), of T]
  have n1: "Mode.ncalc ?m1 = Mode.ncalc m" using u(2) assms by (simp add: single_sample_def)
  have n2: "Mode.ncalc ?m2 = Mode.ncalc m" using s(2) assms by (simp add: single_sample_def)
  have vs: "value_of (get_entropy T ?m1) = value_of (get_entropy T m)"
    by (rule get_entropy_value_cong [OF n1 u(3)])
  have vc: "value_of (get_C_v T ?m2) = value_of (get_C_v T m)"
    by (rule get_C_v_value_cong [OF n2]) (simp add: s(3) u(3))
  have "mode_thermal T m = Inr (thermal_values T m, ?m3)"
    unfolding mode_thermal_def thermal_values_def
    by (subst u(1), simp, subst s(1), simp, subst c(1), simp add: vs vc)
  moreover have "evolved ?m3 m"
    by (simp add: evolved_def c(2) c(3) s(3) u(3))
  moreover have "zp_cache_ok m \<Longrightarrow> zp_cache_ok ?m3"
    by (intro zp_cache_ok_get_C_v zp_cache_ok_get_entropy zp_cache_ok_get_U_vib)
  ultimately show ?thesis by auto
qed

lemma contributions_evolved:
  assumes "list_all2 evolved qp' qp" "list_all single_sample qp"
  shows "zp_contribution qp' = zp_contribution qp"
    and "S_contribution T qp' = S_contribution T qp"
    and "C_contribution T qp' = C_contribution T qp"
    and "U_q T qp' = U_q T qp"
  using assms
  by (induction qp' qp rule: list_all2_induct;
      simp add: zp_contribution_def S_contribution_def C_contribution_def U_q_def
        evolved_counted evolved_values)+

lemma U_contribution_settled:
  assumes "list_all single_sample qp" "list_all settled qp"
  shows "U_contribution T qp = U_q T qp"
  using assms
  by (induction qp) (auto simp: U_contribution_def U_q_def settled_def settled_U_value)

lemma evolved_single: "list_all2 evolved qp' qp \<Longrightarrow> list_all single_sample qp'"
  by (induction qp' qp rule: list_all2_induct) (simp_all add: evolved_def)

lemma settled_not_counted: "\<not> counted m \<Longrightarrow> settled m"
  by (simp add: settled_def)

lemma settled_cache_ok: "zp_cache_ok m \<Longrightarrow> settled m"
  by (simp add: settled_def)

lemma sumup_zp_qpoint_single:
  assumes "list_all single_sample qp"
  shows "\<exists>qp'. sumup_zp_qpoint acc qp = Inr (acc + zp_contribution qp, qp')
            \<and> list_all2 evolved qp' qp \<and> list_all settled qp'"
  using assms
proof (induction qp arbitrary: acc)
  case Nil
  then show ?case by (simp add: zp_contribution_def)
next
  case (Cons m qp)
  then have m: "single_sample m" and qp: "list_all single_sample qp" by simp_all
  show ?case
  proof (cases "counted m")
    case False
    from Cons.IH [OF qp, of acc] obtain qp' where
      "sumup_zp_qpoint acc qp = Inr (acc + zp_contribution qp, qp')"
      "list_all2 evolved qp' qp" "list_all settled qp'" by blast
    then show ?thesis
      using False m
      by (simp add: not_translational_single zp_contribution_def evolved_refl
          settled_not_counted)
  next
    case True
    from get_zp_energy_single(1) [OF m] get_zp_energy_evolved [OF m] obtain z m' where
      gm: "get_zp_energy m = (Inr z, m')" "evolved m' m" "zp_cache_ok m'" by blast
    then have v: "value_of (get_zp_energy m) = z" by (simp add: value_of_def)
    from Cons.IH [OF qp, of "acc + z"] obtain qp' where
      "sumup_zp_qpoint (acc + z) qp = Inr (acc + z + zp_contribution qp, qp')"
      "list_all2 evolved qp' qp" "list_all settled qp'" by blast
    then show ?thesis
      using True m gm v
      by (simp add: not_translational_single zp_contribution_def add.assoc settled_cache_ok)
  qed
qed

lemma sumup_T_qpoint_single:
  assumes "list_all single_sample qp"
  shows "\<exists>qp'. sumup_T_qpoint T (a, b, c) qp =
              Inr ((a + U_contribution T qp, b + S_contribution T qp, c + C_contribution T qp), qp')
            \<and> list_all2 evolved qp' qp
            \<and> (if list_all settled qp then list_all settled qp' else True)"
  using assms
proof (induction qp arbitrary: a b c)
  case Nil
  then show ?case
    by (simp add: U_contribution_def S_contribution_def C_contribution_def)
next
  case (Cons m qp)
  then have m: "single_sample m" and qp: "list_all single_sample qp" by simp_all
  show ?case
  proof (cases "counted m")
    case False
    from Cons.IH [OF qp, of a b c] obtain qp' where
      "sumup_T_qpoint T (a, b, c) qp =
         Inr ((a + U_contribution T qp, b + S_contribution T qp, c + C_contribution T qp), qp')"
      "list_all2 evolved qp' qp" "if list_all settled qp then list_all settled qp' else True"
      by blast
    then show ?thesis
      using False m
      by (simp add: not_translational_single U_contribution_def S_contribution_def
          C_contribution_def evolved_refl settled_not_counted)
  next
    case True
    from mode_thermal_evolved [OF m, of T] obtain u s' c' m' where
      m': "mode_thermal T m = Inr ((u, s', c'), m')" "evolved m' m"
          "if zp_cache_ok m then zp_cache_ok m' else True"
        and v: "thermal_values T m = (u, s', c')"
      by (metis prod_cases3)
    from v have vs: "value_of (get_U_vib T m) = u" "value_of (get_entropy T m) = s'"
      "value_of (get_C_v T m) = c'"
      by (simp_all add: thermal_values_def)
    have st: "settled m \<Longrightarrow> settled m'"
      using m'(2,3) True by (simp add: settled_def evolved_counted split: if_splits)
    from Cons.IH [OF qp, of "a + u" "b + s'" "c + c'"] obtain qp' where
      "sumup_T_qpoint T (a + u, b + s', c + c') qp =
         Inr ((a + u + U_contribution T qp, b + s' + S_contribution T qp,
               c + c' + C_contribution T qp), qp')"
      "list_all2 evolved qp' qp" "if list_all settled qp then list_all settled qp' else True"
      by blast
    then show ?thesis
      using True m m'(1,2) vs st
      by (auto simp add: not_translational_single U_contribution_def S_contribution_def
          C_contribution_def add.assoc split: if_splits)
  qed
qed

lemma sumup_zp_single:
  assumes "list_all (list_all single_sample) modes"
  shows "\<exists>modes'. sumup_zp modes = Inr (map zp_contribution modes, modes')
            \<and> list_all2 (list_all2 evolved) modes' modes
            \<and> list_all (list_all settled) modes'"
  using assms
proof (induction modes)
  case Nil
  then show ?case by simp
next
  case (Cons qp modes)
  then have qp: "list_all single_sample qp" and ms: "list_all (list_all single_sample) modes"
    by simp_all
  from sumup_zp_qpoint_single [OF qp, of 0] obtain qp' where
    "sumup_zp_qpoint 0 qp = Inr (zp_contribution qp, qp')"
    "list_all2 evolved qp' qp" "list_all settled qp'"
    by auto
  moreover from Cons.IH [OF ms] obtain modes' where
    "sumup_zp modes = Inr (map zp_contribution modes, modes')"
    "list_all2 (list_all2 evolved) modes' modes" "list_all (list_all settled) modes'" by blast
  ultimately show ?case by simp
qed

lemma sumup_T_single:
  assumes "list_all (list_all single_sample) modes"
  shows "\<exists>modes'. sumup_T T modes =
              Inr ((map (U_contribution T) modes, map (S_contribution T) modes,
                    map (C_contribution T) modes), modes')
            \<and> list_all2 (list_all2 evolved) modes' modes
            \<and> (if list_all (list_all settled) modes then list_all (list_all settled) modes'
                else True)"
  using assms
proof (induction modes)
  case Nil
  then show ?case by simp
next
  case (Cons qp modes)
  then have qp: "list_all single_sample qp" and ms: "list_all (list_all single_sample) modes"
    by simp_all
  from sumup_T_qpoint_single [OF qp, of T 0 0 0] obtain qp' where
    "sumup_T_qpoint T (0, 0, 0) qp =
       Inr ((U_contribution T qp, S_contribution T qp, C_contribution T qp), qp')"
    "list_all2 evolved qp' qp" "if list_all settled qp then list_all settled qp' else True"
    by auto
  moreover from Cons.IH [OF ms] obtain modes' where
    "sumup_T T modes =
       Inr ((map (U_contribution T) modes, map (S_contribution T) modes,
             map (C_contribution T) modes), modes')"
    "list_all2 (list_all2 evolved) modes' modes"
    "if list_all (list_all settled) modes then list_all (list_all settled) modes' else True"
    by blast
  ultimately show ?case by (auto split: if_splits)
qed

lemma counted_iff:
  assumes "single_sample m"
  shows "counted m \<longleftrightarrow>
           (\<exists>w. Mode.frequency m = [Fin w] \<and> 0.00001 < w) \<or> Mode.frequency m = [PInf]"
proof -
  from single_sample_frequency [OF assms] obtain f where f: "Mode.frequency m = [f]" ..
  show ?thesis
    by (cases f) (simp_all add: counted_def not_translational_def f np_isnan_def pyfloat_simps)
qed

lemma single_sample_init: "single_sample (Mode_init r [f] v e)"
  by (simp add: single_sample_def Mode_init_def)

lemma counted_Fin: "Mode.frequency m = [Fin w] \<Longrightarrow> counted m \<longleftrightarrow> 0.00001 < w"
  by (simp add: counted_def not_translational_def np_isnan_def pyfloat_simps)

lemma counted_NaN: "Mode.frequency m = [NaN] \<Longrightarrow> \<not> counted m"
  by (simp add: counted_def not_translational_def np_isnan_def)

lemma counted_below_threshold: "\<not> counted (Mode_init r [Fin 0.000001] v e)"
proof -
  have "pi < 5" using pi_less_4 by simp
  then show ?thesis
    by (simp add: counted_Fin [OF frequency_init_Fin])
qed

lemma counted_above_threshold: "counted (Mode_init r [Fin 0.0001] v e)"
proof -
  have "1 / 20 < pi" using pi_ge_two by simp
  then show ?thesis
    by (simp add: counted_Fin [OF frequency_init_Fin])
qed

text \<open>
  Claim C6.  For an engine whose modes each hold one calculation sample, both forms of
  \<open>phonon_sumup\<close> return, for every q-point, the sum over the counted modes only: a
  mode that is not counted adds nothing, every counted mode adds the value its method
  returns.  A mode is counted exactly when its stored angular frequency is not
  \<open>NaN\<close> and greater than \<open>1e-5\<close>: a number greater than \<open>1e-5\<close>, or \<open>inf\<close>.
  A mode built from 1e-6 THz is not counted, one built from 1e-4 THz is.
\<close>

theorem sums_skip_translational_modes:
  assumes "mode self = Some modes" and "list_all (list_all single_sample) modes"
  shows "(\<exists>self'. phonon_sumup None self = Inr (ZeroPoint (map zp_contribution modes), self'))
       \<and> (\<exists>self'. phonon_sumup (Some T) self =
              Inr (Thermal (map (U_contribution T) modes) (map (S_contribution T) modes)
                     (map (C_contribution T) modes), self'))
       \<and> list_all (list_all (\<lambda>m. counted m \<longleftrightarrow>
              (\<exists>w. Mode.frequency m = [Fin w] \<and> 0.00001 < w)
              \<or> Mode.frequency m = [PInf])) modes
       \<and> \<not> counted (Mode_init r [Fin 0.000001] v e)
       \<and> counted (Mode_init r [Fin 0.0001] v e)"
proof -
  from sumup_zp_single [OF assms(2)] obtain ms1 where
    "sumup_zp modes = Inr (map zp_contribution modes, ms1)" by blast
  then have 1: "\<exists>self'. phonon_sumup None self = Inr (ZeroPoint (map zp_contribution modes), self')"
    using assms(1) by (simp add: phonon_sumup_def)
  from sumup_T_single [OF assms(2), of T] obtain ms2 where
    "sumup_T T modes = Inr ((map (U_contribution T) modes, map (S_contribution T) modes,
        map (C_contribution T) modes), ms2)" by blast
  then have 2: "\<exists>self'. phonon_sumup (Some T) self =
      Inr (Thermal (map (U_contribution T) modes) (map (S_contribution T) modes)
             (map (C_contribution T) modes), self')"
    using assms(1) by (simp add: phonon_sumup_def)
  have 3: "list_all (list_all (\<lambda>m. counted m \<longleftrightarrow>
              (\<exists>w. Mode.frequency m = [Fin w] \<and> 0.00001 < w)
              \<or> Mode.frequency m = [PInf])) modes"
    using assms(2) by (simp add: list_all_iff counted_iff)
  from 1 2 3 counted_below_threshold counted_above_threshold show ?thesis by blast
qed

theorem sums_skip_translational_modes_witness:
  "\<exists>self'. phonon_sumup None
       (Harmonic_init\<lparr>mode := Some [[Mode_init 1 [Fin 0.000001] [Fin 50] [],
                                        Mode_init 2 [Fin 0.0001] [Fin 50] []]]\<rparr>)
     = Inr (ZeroPoint [value_of (get_zp_energy (Mode_init 2 [Fin 0.0001] [Fin 50] []))], self')"
proof -
  let ?modes = "[[Mode_init 1 [Fin 0.000001] [Fin 50] [], Mode_init 2 [Fin 0.0001] [Fin 50] []]]"
  have 1: "mode (Harmonic_init\<lparr>mode := Some ?modes\<rparr>) = Some ?modes" by simp
  have 2: "list_all (list_all single_sample) ?modes" by (simp add: single_sample_init)
  from sums_skip_translational_modes [OF 1 2]
  have "\<exists>self'. phonon_sumup None (Harmonic_init\<lparr>mode := Some ?modes\<rparr>)
          = Inr (ZeroPoint (map zp_contribution ?modes), self')"
    by blast
  moreover have "map zp_contribution ?modes
      = [value_of (get_zp_energy (Mode_init 2 [Fin 0.0001] [Fin 50] []))]"
    using counted_below_threshold [of 1 "[Fin 50]" "[]"]
      counted_above_threshold [of 2 "[Fin 50]" "[]"]
    by (simp add: zp_contribution_def)
  ultimately show ?thesis by simp
qed

section \<open>The tensors of thermodynamics\<close>

lemma modes_contributions:
  assumes "list_all2 (list_all2 evolved) ms modes" "list_all (list_all single_sample) modes"
    "list_all (list_all settled) ms"
  shows "map (U_contribution T) ms = map (U_q T) modes"
    and "map (S_contribution T) ms = map (S_contribution T) modes"
    and "map (C_contribution T) ms = map (C_contribution T) modes"
  using assms
proof (induction ms modes rule: list_all2_induct)
  case Nil
  { case 1 show ?case by simp }
  { case 2 show ?case by simp }
  { case 3 show ?case by simp }
next
  case (Cons qp' ms qp modes)
  { case 1
    then show ?case
      using Cons contributions_evolved(4) [of qp' qp T]
        U_contribution_settled [OF evolved_single, of qp' qp T] by simp }
  { case 2
    then show ?case using Cons contributions_evolved(2) [of qp' qp T] by simp }
  { case 3
    then show ?case using Cons contributions_evolved(3) [of qp' qp T] by simp }
qed

lemma evolved_lists_trans:
  assumes "list_all2 (list_all2 evolved) ms2 ms1" "list_all2 (list_all2 evolved) ms1 modes"
  shows "list_all2 (list_all2 evolved) ms2 modes"
proof -
  have inner: "list_all2 evolved a c" if "list_all2 evolved a b" "list_all2 evolved b c"
    for a b c
    by (rule list_all2_trans [OF _ that]) (rule evolved_trans)
  show ?thesis
    by (rule list_all2_trans [OF _ assms]) (rule inner)
qed

lemma evolved_lists_single:
  "list_all2 (list_all2 evolved) ms modes \<Longrightarrow> list_all (list_all single_sample) ms"
  by (induction ms modes rule: list_all2_induct) (simp_all add: evolved_single)

lemma map2_same: "map2 f (map g xs) (map h xs) = map (\<lambda>x. f (g x) (h x)) xs"
  by (induction xs) simp_all

lemma phonon_sumup_T_evolved:
  assumes "mode self = Some ms" "list_all2 (list_all2 evolved) ms modes"
    "list_all (list_all single_sample) modes" "list_all (list_all settled) ms"
  shows "\<exists>ms1. phonon_sumup (Some T) self =
            Inr (Thermal (map (U_q T) modes) (map (S_contribution T) modes)
                   (map (C_contribution T) modes), self\<lparr>mode := Some ms1\<rparr>)
          \<and> list_all2 (list_all2 evolved) ms1 modes \<and> list_all (list_all settled) ms1"
proof -
  from sumup_T_single [OF evolved_lists_single [OF assms(2)], of T] assms(4) obtain ms1 where
    1: "sumup_T T ms = Inr ((map (U_contribution T) ms, map (S_contribution T) ms,
          map (C_contribution T) ms), ms1)"
    and 2: "list_all2 (list_all2 evolved) ms1 ms" and 3: "list_all (list_all settled) ms1"
    by auto
  from 1 assms(1) modes_contributions [OF assms(2,3,4), of T]
  have "phonon_sumup (Some T) self =
            Inr (Thermal (map (U_q T) modes) (map (S_contribution T) modes)
                   (map (C_contribution T) modes), self\<lparr>mode := Some ms1\<rparr>)"
    by (simp add: phonon_sumup_def)
  with evolved_lists_trans [OF 2 assms(2)] 3 show ?thesis by blast
qed

lemma temperature_loop_evolved:
  assumes "mode self = Some ms" "list_all2 (list_all2 evolved) ms modes"
    "list_all (list_all single_sample) modes" "list_all (list_all settled) ms"
  shows "\<exists>ms'. temperature_loop Ts Ps V E self =
            Inr ((map (\<lambda>T. map (U_q T) modes) Ts,
                  map (\<lambda>T. map (S_contribution T) modes) Ts,
                  map (\<lambda>T. map (C_contribution T) modes) Ts,
                  map (\<lambda>T. map (helm_q T E) modes) Ts,
                  map (\<lambda>T. map (\<lambda>P. map (gibbs_q T P V E) modes) Ps) Ts),
                 self\<lparr>mode := Some ms'\<rparr>)"
  using assms
proof (induction Ts arbitrary: self ms)
  case Nil
  then have "self\<lparr>mode := Some ms\<rparr> = self" by simp
  then show ?case by (intro exI [of _ ms]) simp
next
  case (Cons T Ts)
  from phonon_sumup_T_evolved [OF Cons.prems, of T] obtain ms1 where
    1: "phonon_sumup (Some T) self =
            Inr (Thermal (map (U_q T) modes) (map (S_contribution T) modes)
                   (map (C_contribution T) modes), self\<lparr>mode := Some ms1\<rparr>)"
    and 2: "list_all2 (list_all2 evolved) ms1 modes" and 3: "list_all (list_all settled) ms1"
    by blast
  have m: "mode (self\<lparr>mode := Some ms1\<rparr>) = Some ms1" by simp
  from Cons.IH [OF m 2 Cons.prems(3) 3] obtain ms' where
    4: "temperature_loop Ts Ps V E (self\<lparr>mode := Some ms1\<rparr>) =
            Inr ((map (\<lambda>T. map (U_q T) modes) Ts,
                  map (\<lambda>T. map (S_contribution T) modes) Ts,
                  map (\<lambda>T. map (C_contribution T) modes) Ts,
                  map (\<lambda>T. map (helm_q T E) modes) Ts,
                  map (\<lambda>T. map (\<lambda>P. map (gibbs_q T P V E) modes) Ps) Ts),
                 self\<lparr>mode := Some ms1, mode := Some ms'\<rparr>)"
    by blast
  have h: "map2 (\<lambda>s u. - s * T + u + E) (map (S_contribution T) modes) (map (U_q T) modes)
      = map (helm_q T E) modes"
    by (simp add: map2_same helm_q_def)
  show ?case
    by (intro exI [of _ ms'])
       (simp add: 1 4 h Let_def gibbs_q_def comp_def)
qed

lemma np_transpose_rows:
  "np_transpose (length xs) (map (\<lambda>T. map (f T) xs) Ts) = map (\<lambda>x. map (\<lambda>T. f T x) Ts) xs"
  by (rule nth_equalityI) (simp_all add: np_transpose_def)

lemma np_sum_axis0_rows:
  "np_sum_axis0 (length Ts) (map (\<lambda>x. map (\<lambda>T. f T x) Ts) xs)
     = map (\<lambda>T. sum_list (map (f T) xs)) Ts"
  by (rule nth_equalityI) (simp_all add: np_sum_axis0_def comp_def)

lemma np_transpose_201_rows:
  "np_transpose_201 (length xs) (map (\<lambda>T. map (\<lambda>P. map (g T P) xs) Ps) Ts)
     = map (\<lambda>x. map (\<lambda>T. map (\<lambda>P. g T P x) Ps) Ts) xs"
  by (rule nth_equalityI) (simp_all add: np_transpose_201_def)

lemma np_sum_axis0_3d_rows:
  "np_sum_axis0_3d (length Ts) (length Ps) (map (\<lambda>x. map (\<lambda>T. map (\<lambda>P. g T P x) Ps) Ts) xs)
     = map (\<lambda>T. map (\<lambda>P. sum_list (map (g T P) xs)) Ps) Ts"
proof (rule nth_equalityI)
  show "length (np_sum_axis0_3d (length Ts) (length Ps)
          (map (\<lambda>x. map (\<lambda>T. map (\<lambda>P. g T P x) Ps) Ts) xs))
      = length (map (\<lambda>T. map (\<lambda>P. sum_list (map (g T P) xs)) Ps) Ts)"
    by (simp add: np_sum_axis0_3d_def)
next
  fix i assume "i < length (np_sum_axis0_3d (length Ts) (length Ps)
          (map (\<lambda>x. map (\<lambda>T. map (\<lambda>P. g T P x) Ps) Ts) xs))"
  then have i: "i < length Ts" by (simp add: np_sum_axis0_3d_def)
  have "map (\<lambda>j. sum_list (map (\<lambda>a_q. a_q ! i ! j)
            (map (\<lambda>x. map (\<lambda>T. map (\<lambda>P. g T P x) Ps) Ts) xs))) [0..<length Ps]
      = map (\<lambda>P. sum_list (map (g (Ts ! i) P) xs)) Ps"
    using i by (intro nth_equalityI) (simp_all add: comp_def)
  then show "np_sum_axis0_3d (length Ts) (length Ps)
          (map (\<lambda>x. map (\<lambda>T. map (\<lambda>P. g T P x) Ps) Ts) xs) ! i
      = map (\<lambda>T. map (\<lambda>P. sum_list (map (g T P) xs)) Ps) Ts ! i"
    using i by (simp add: np_sum_axis0_3d_def)
qed

lemma phonon_sumup_zp_evolved:
  assumes "mode self = Some modes" "list_all (list_all single_sample) modes"
  shows "\<exists>ms0. phonon_sumup None self =
            Inr (ZeroPoint (map zp_contribution modes), self\<lparr>mode := Some ms0\<rparr>)
          \<and> list_all2 (list_all2 evolved) ms0 modes \<and> list_all (list_all settled) ms0"
proof -
  from sumup_zp_single [OF assms(2)] obtain ms0 where
    "sumup_zp modes = Inr (map zp_contribution modes, ms0)"
    "list_all2 (list_all2 evolved) ms0 modes" "list_all (list_all settled) ms0" by blast
  then show ?thesis
    using assms(1) by (auto simp: phonon_sumup_def)
qed

lemma thermodynamics_rows:
  assumes "populated self modes Ts Ps V E"
  shows "\<exists>ms0 ms'. phonon_sumup None self =
            Inr (ZeroPoint (map zp_contribution modes), self\<lparr>mode := Some ms0\<rparr>)
          \<and> temperature_loop Ts Ps V E
               (self\<lparr>mode := Some ms0, zp_energy := Some (map zp_contribution modes)\<rparr>) =
            Inr ((map (\<lambda>T. map (U_q T) modes) Ts,
                  map (\<lambda>T. map (S_contribution T) modes) Ts,
                  map (\<lambda>T. map (C_contribution T) modes) Ts,
                  map (\<lambda>T. map (helm_q T E) modes) Ts,
                  map (\<lambda>T. map (\<lambda>P. map (gibbs_q T P V E) modes) Ps) Ts),
                 self\<lparr>mode := Some ms', zp_energy := Some (map zp_contribution modes)\<rparr>)"
proof -
  from assms have m: "mode self = Some modes" and s: "list_all (list_all single_sample) modes"
    by (simp_all add: populated_def)
  from phonon_sumup_zp_evolved [OF m s] obtain ms0 where
    0: "phonon_sumup None self =
            Inr (ZeroPoint (map zp_contribution modes), self\<lparr>mode := Some ms0\<rparr>)"
    and 1: "list_all2 (list_all2 evolved) ms0 modes" and 2: "list_all (list_all settled) ms0"
    by blast
  let ?self1 = "self\<lparr>mode := Some ms0, zp_energy := Some (map zp_contribution modes)\<rparr>"
  have m1: "mode ?self1 = Some ms0" by simp
  from temperature_loop_evolved [OF m1 1 s 2, of Ts Ps V E] obtain ms' where
    "temperature_loop Ts Ps V E ?self1 =
            Inr ((map (\<lambda>T. map (U_q T) modes) Ts,
                  map (\<lambda>T. map (S_contribution T) modes) Ts,
                  map (\<lambda>T. map (C_contribution T) modes) Ts,
                  map (\<lambda>T. map (helm_q T E) modes) Ts,
                  map (\<lambda>T. map (\<lambda>P. map (gibbs_q T P V E) modes) Ps) Ts),
                 ?self1\<lparr>mode := Some ms'\<rparr>)"
    by blast
  with 0 show ?thesis by (intro exI [of _ ms0] exI [of _ ms']) simp
qed

lemma thermodynamics_summed:
  assumes "populated self modes Ts Ps V E"
  shows "\<exists>ms'. thermodynamics True self =
     Inr (self\<lparr>mode := Some ms',
               zp_energy := Some (map zp_contribution modes),
               U_vib := Some [map (\<lambda>T. sum_list (map (U_q T) modes)) Ts],
               entropy := Some [map (\<lambda>T. sum_list (map (S_contribution T) modes)) Ts],
               C_v := Some [map (\<lambda>T. sum_list (map (C_contribution T) modes)) Ts],
               helmholtz := Some [map (\<lambda>T. sum_list (map (helm_q T E) modes)) Ts],
               gibbs := Some [map (\<lambda>T. map (\<lambda>P. sum_list (map (gibbs_q T P V E) modes)) Ps) Ts],
               nqpoint := Some 1,
               qpoint := Some [[0, 0, 0]]\<rparr>)"
proof -
  from thermodynamics_rows [OF assms] obtain ms0 ms' where
    0: "phonon_sumup None self =
            Inr (ZeroPoint (map zp_contribution modes), self\<lparr>mode := Some ms0\<rparr>)"
    and 1: "temperature_loop Ts Ps V E
               (self\<lparr>mode := Some ms0, zp_energy := Some (map zp_contribution modes)\<rparr>) =
            Inr ((map (\<lambda>T. map (U_q T) modes) Ts,
                  map (\<lambda>T. map (S_contribution T) modes) Ts,
                  map (\<lambda>T. map (C_contribution T) modes) Ts,
                  map (\<lambda>T. map (helm_q T E) modes) Ts,
                  map (\<lambda>T. map (\<lambda>P. map (gibbs_q T P V E) modes) Ps) Ts),
                 self\<lparr>mode := Some ms', zp_energy := Some (map zp_contribution modes)\<rparr>)"
    by blast
  from assms have a: "temperature self = Some Ts" "pressure self = Some Ps"
    "volume self = Some V" "edft self = Some E" "Ts \<noteq> []" "Ps \<noteq> []"
    by (simp_all add: populated_def)
  show ?thesis
    by (intro exI [of _ ms'])
       (simp add: thermodynamics_def 0 1 a Let_def np_transpose_rows np_sum_axis0_rows
          np_transpose_201_rows np_sum_axis0_3d_rows)
qed

lemma thermodynamics_per_qpoint:
  assumes "populated self modes Ts Ps V E"
  shows "\<exists>ms'. thermodynamics False self =
     Inr (self\<lparr>mode := Some ms',
               zp_energy := Some (map zp_contribution modes),
               U_vib := Some (map (\<lambda>qp. map (\<lambda>T. U_q T qp) Ts) modes),
               entropy := Some (map (\<lambda>qp. map (\<lambda>T. S_contribution T qp) Ts) modes),
               C_v := Some (map (\<lambda>qp. map (\<lambda>T. C_contribution T qp) Ts) modes),
               helmholtz := Some (map (\<lambda>qp. map (\<lambda>T. helm_q T E qp) Ts) modes),
               gibbs := Some (map (\<lambda>qp. map (\<lambda>T. map (\<lambda>P. gibbs_q T P V E qp) Ps) Ts) modes)\<rparr>)"
proof -
  from thermodynamics_rows [OF assms] obtain ms0 ms' where
    0: "phonon_sumup None self =
            Inr (ZeroPoint (map zp_contribution modes), self\<lparr>mode := Some ms0\<rparr>)"
    and 1: "temperature_loop Ts Ps V E
               (self\<lparr>mode := Some ms0, zp_energy := Some (map zp_contribution modes)\<rparr>) =
            Inr ((map (\<lambda>T. map (U_q T) modes) Ts,
                  map (\<lambda>T. map (S_contribution T) modes) Ts,
                  map (\<lambda>T. map (C_contribution T) modes) Ts,
                  map (\<lambda>T. map (helm_q T E) modes) Ts,
                  map (\<lambda>T. map (\<lambda>P. map (gibbs_q T P V E) modes) Ps) Ts),
                 self\<lparr>mode := Some ms', zp_energy := Some (map zp_contribution modes)\<rparr>)"
    by blast
  from assms have a: "temperature self = Some Ts" "pressure self = Some Ps"
    "volume self = Some V" "edft self = Some E" "Ts \<noteq> []" "Ps \<noteq> []"
    by (simp_all add: populated_def)
  show ?thesis
    by (intro exI [of _ ms'])
       (simp add: thermodynamics_def 0 1 a Let_def np_transpose_rows np_transpose_201_rows)
qed

section \<open>The electronic energy in the summed tensors\<close>

lemma get_zp_energy_Fin:
  assumes "Mode.ncalc m \<le> 1" "Mode.frequency m = Fin w # fs"
  shows "value_of (get_zp_energy m) = Fin (0.5 * hbar_r w)"
  using assms
  by (simp add: get_zp_energy_def value_of_def Let_def hbar_freq_Fin pyfloat_simps)

lemma get_U_vib_fresh_zero:
  assumes "Mode.ncalc m \<le> 1" "Mode.frequency m = Fin w # fs"
  shows "value_of (get_U_vib (Fin 0) (fresh m)) = Fin (0.5 * hbar_r w)"
  using assms
  by (simp add: get_U_vib_def get_zp_energy_def value_of_def fresh_def Let_def hbar_freq_Fin
      pyfloat_simps)

lemma get_U_vib_fresh_Fin:
  assumes "Mode.ncalc m \<le> 1" "Mode.frequency m = Fin w # fs" "0 < w" "0 < t"
    and "exp (hbar_r w / (kb_r * t)) \<le> DBL_MAX"
  shows "value_of (get_U_vib (Fin t) (fresh m)) = Fin (U_vib_r w t)"
proof -
  have e: "1 < exp (hbar_r w / (kb_r * t))"
    using reduced_pos [OF assms(3,4)] by simp
  have k: "kb_r * t \<noteq> 0" using kb_r_pos assms by simp
  have h: "hbar_r w \<noteq> 0" using hbar_r_pos [OF assms(3)] by simp
  have r: "\<not> DBL_MAX < exp (hbar_r w / (kb_r * t))" using assms(5) by simp
  show ?thesis
    using assms(1,2,4) e k h r
    by (simp add: get_U_vib_def get_zp_energy_def value_of_def fresh_def Let_def hbar_freq_Fin
        kb_t_Fin pyfloat_simps U_vib_r_def)
qed

lemma get_entropy_value_zero:
  "Mode.ncalc m \<le> 1 \<Longrightarrow> value_of (get_entropy (Fin 0) m) = Fin 0"
  by (simp add: value_of_def get_entropy_zero)

lemma get_entropy_value_Fin:
  assumes "Mode.ncalc m \<le> 1" "Mode.frequency m = Fin w # fs" "0 < w" "0 < t"
    and "exp (hbar_r w / (kb_r * t)) \<le> DBL_MAX"
  shows "value_of (get_entropy (Fin t) m) = Fin (entropy_r w t)"
  by (simp add: value_of_def get_entropy_Fin [OF assms])

lemma sum_list_add_const:
  "sum_list (map (\<lambda>x. f x + Fin e) xs) = sum_list (map f xs) + Fin (real (length xs) * e)"
proof (induction xs)
  case Nil
  show ?case by (simp add: zero_pyfloat_def)
next
  case (Cons x xs)
  show ?case
    unfolding list.map sum_list.Cons Cons.IH
    by (cases "f x"; cases "sum_list (map f xs)") (simp_all add: algebra_simps)
qed

lemma sum_list_const_add:
  "sum_list (map (\<lambda>x. Fin c + f x) xs) = Fin (real (length xs) * c) + sum_list (map f xs)"
  using sum_list_add_const [of f c xs] by (simp add: add.commute)

lemma helm_q_split: "helm_q T (Fin e) qp = helm_q T 0 qp + Fin e"
  by (simp add: helm_q_def add.assoc)

lemma gibbs_q_split: "gibbs_q T P V (Fin e) qp = gibbs_q T P V 0 qp + Fin e"
  by (simp add: gibbs_q_def helm_q_def add.assoc)

text \<open>
  Claim C4.  With the sums over the Brillouin zone switched on and \<open>N\<close> q-points, the
  electronic energy \<open>e\<close> is part of the Helmholtz energy of every q-point before the
  q-points are added up: the reported Helmholtz energy is the sum of the vibrational
  parts plus \<open>N * e\<close>, and so is every Gibbs entry; with \<open>N = 1\<close> that is \<open>e\<close> once.
\<close>

theorem summed_helmholtz_has_edft_per_qpoint:
  assumes "populated self modes Ts Ps V (Fin e)"
  shows "(\<exists>h. thermodynamics False self = Inr h
            \<and> helmholtz h = Some (map (\<lambda>qp. map (\<lambda>T. helm_q T 0 qp + Fin e) Ts) modes))
       \<and> (\<exists>h. thermodynamics True self = Inr h
            \<and> helmholtz h =
                Some [map (\<lambda>T. sum_list (map (helm_q T 0) modes)
                               + Fin (real (length modes) * e)) Ts]
            \<and> gibbs h =
                Some [map (\<lambda>T. map (\<lambda>P. sum_list (map (gibbs_q T P V 0) modes)
                                          + Fin (real (length modes) * e)) Ps) Ts])"
proof -
  have h: "(\<lambda>qp. helm_q T (Fin e) qp) = (\<lambda>qp. helm_q T 0 qp + Fin e)" for T
    by (simp add: helm_q_split)
  have g: "(\<lambda>qp. gibbs_q T P V (Fin e) qp) = (\<lambda>qp. gibbs_q T P V 0 qp + Fin e)" for T P
    by (simp add: gibbs_q_split)
  from thermodynamics_per_qpoint [OF assms] obtain ms1 where
    "thermodynamics False self =
     Inr (self\<lparr>mode := Some ms1,
               zp_energy := Some (map zp_contribution modes),
               U_vib := Some (map (\<lambda>qp. map (\<lambda>T. U_q T qp) Ts) modes),
               entropy := Some (map (\<lambda>qp. map (\<lambda>T. S_contribution T qp) Ts) modes),
               C_v := Some (map (\<lambda>qp. map (\<lambda>T. C_contribution T qp) Ts) modes),
               helmholtz := Some (map (\<lambda>qp. map (\<lambda>T. helm_q T (Fin e) qp) Ts) modes),
               gibbs := Some (map (\<lambda>qp. map (\<lambda>T. map (\<lambda>P. gibbs_q T P V (Fin e) qp) Ps) Ts)
                               modes)\<rparr>)"
    by blast
  then have 1: "\<exists>h. thermodynamics False self = Inr h
            \<and> helmholtz h = Some (map (\<lambda>qp. map (\<lambda>T. helm_q T 0 qp + Fin e) Ts) modes)"
    by (simp add: helm_q_split)
  from thermodynamics_summed [OF assms] obtain ms2 where
    "thermodynamics True self =
     Inr (self\<lparr>mode := Some ms2,
               zp_energy := Some (map zp_contribution modes),
               U_vib := Some [map (\<lambda>T. sum_list (map (U_q T) modes)) Ts],
               entropy := Some [map (\<lambda>T. sum_list (map (S_contribution T) modes)) Ts],
               C_v := Some [map (\<lambda>T. sum_list (map (C_contribution T) modes)) Ts],
               helmholtz := Some [map (\<lambda>T. sum_list (map (helm_q T (Fin e)) modes)) Ts],
               gibbs := Some [map (\<lambda>T. map (\<lambda>P. sum_list (map (gibbs_q T P V (Fin e)) modes))
                                         Ps) Ts],
               nqpoint := Some 1,
               qpoint := Some [[0, 0, 0]]\<rparr>)"
    by blast
  then have 2: "\<exists>h. thermodynamics True self = Inr h
            \<and> helmholtz h =
                Some [map (\<lambda>T. sum_list (map (helm_q T 0) modes)
                               + Fin (real (length modes) * e)) Ts]
            \<and> gibbs h =
                Some [map (\<lambda>T. map (\<lambda>P. sum_list (map (gibbs_q T P V 0) modes)
                                          + Fin (real (length modes) * e)) Ps) Ts]"
    by (simp add: h g sum_list_add_const)
  from 1 2 show ?thesis by blast
qed

lemma populated_example:
  "populated
     (Harmonic_init\<lparr>mode := Some modes, temperature := Some Ts, pressure := Some Ps,
                    volume := Some V, edft := Some E\<rparr>) modes Ts Ps V E
   \<longleftrightarrow> list_all (list_all single_sample) modes \<and> Ts \<noteq> [] \<and> Ps \<noteq> []"
  by (simp add: populated_def)

theorem summed_helmholtz_has_edft_per_qpoint_witness:
  "\<exists>h. thermodynamics True
          (Harmonic_init\<lparr>mode := Some [[Mode_init 1 [Fin 5] [Fin 50] []],
                                       [Mode_init 1 [Fin 10] [Fin 50] []]],
                         temperature := Some [Fin 0], pressure := Some [Fin 0],
                         volume := Some (Fin 50), edft := Some (Fin (- 100))\<rparr>) = Inr h
      \<and> helmholtz h =
          Some [[sum_list (map (helm_q (Fin 0) 0) [[Mode_init 1 [Fin 5] [Fin 50] []],
                                                   [Mode_init 1 [Fin 10] [Fin 50] []]])
                 + Fin (2 * (- 100))]]"
proof -
  let ?modes = "[[Mode_init 1 [Fin 5] [Fin 50] []], [Mode_init 1 [Fin 10] [Fin 50] []]]"
  have "populated
     (Harmonic_init\<lparr>mode := Some ?modes, temperature := Some [Fin 0], pressure := Some [Fin 0],
                    volume := Some (Fin 50), edft := Some (Fin (- 100))\<rparr>)
     ?modes [Fin 0] [Fin 0] (Fin 50) (Fin (- 100))"
    unfolding populated_example by (simp add: single_sample_init)
  from summed_helmholtz_has_edft_per_qpoint [OF this]
  show ?thesis by auto
qed

section \<open>Gibbs free energy\<close>

lemma gibbs_q_Fin:
  "gibbs_q T (Fin p) (Fin v) E qp = Fin (p * v * 0.602214) + helm_q T E qp"
  by (simp add: gibbs_q_def pyfloat_simps)

lemma sum_gibbs_q:
  "sum_list (map (gibbs_q T (Fin p) (Fin v) E) modes)
     = Fin (real (length modes) * (p * v * 0.602214)) + sum_list (map (helm_q T E) modes)"
proof -
  have "gibbs_q T (Fin p) (Fin v) E = (\<lambda>qp. Fin (p * v * 0.602214) + helm_q T E qp)"
    by (rule ext) (rule gibbs_q_Fin)
  then show ?thesis by (simp only: sum_list_const_add)
qed

text \<open>
  Claim C7, as amended.  Pressures and cell volume are numbers.  Without the sums over
  the Brillouin zone, the Gibbs entry of every q-point, temperature and pressure is
  \<open>P * V * 0.602214\<close> plus the Helmholtz entry of that q-point and temperature.  With
  the sums over \<open>N\<close> q-points, the one reported Gibbs entry per temperature and pressure
  is \<open>N * P * V * 0.602214\<close> plus the reported Helmholtz entry.  In both cases the Gibbs
  entry at pressure 0 is the Helmholtz entry.
\<close>

theorem gibbs_is_pv_plus_helmholtz:
  assumes "populated self modes Ts (map Fin ps) (Fin v) E"
  shows "(\<exists>h H G. thermodynamics False self = Inr h
            \<and> helmholtz h = Some H \<and> gibbs h = Some G
            \<and> length H = length modes \<and> length G = length modes
            \<and> (\<forall>q < length modes. \<forall>t < length Ts. \<forall>p < length ps.
                  G ! q ! t ! p = Fin (ps ! p * v * 0.602214) + H ! q ! t
                  \<and> (ps ! p = 0 \<longrightarrow> G ! q ! t ! p = H ! q ! t)))
       \<and> (\<exists>h H G. thermodynamics True self = Inr h
            \<and> helmholtz h = Some [H] \<and> gibbs h = Some [G]
            \<and> (\<forall>t < length Ts. \<forall>p < length ps.
                  G ! t ! p = Fin (real (length modes) * (ps ! p * v * 0.602214)) + H ! t
                  \<and> (ps ! p = 0 \<longrightarrow> G ! t ! p = H ! t)))"
proof -
  from thermodynamics_per_qpoint [OF assms] obtain ms1 where
    1: "thermodynamics False self =
     Inr (self\<lparr>mode := Some ms1,
               zp_energy := Some (map zp_contribution modes),
               U_vib := Some (map (\<lambda>qp. map (\<lambda>T. U_q T qp) Ts) modes),
               entropy := Some (map (\<lambda>qp. map (\<lambda>T. S_contribution T qp) Ts) modes),
               C_v := Some (map (\<lambda>qp. map (\<lambda>T. C_contribution T qp) Ts) modes),
               helmholtz := Some (map (\<lambda>qp. map (\<lambda>T. helm_q T E qp) Ts) modes),
               gibbs := Some (map (\<lambda>qp. map (\<lambda>T. map (\<lambda>P. gibbs_q T P (Fin v) E qp)
                                 (map Fin ps)) Ts) modes)\<rparr>)"
    by blast
  let ?H = "map (\<lambda>qp. map (\<lambda>T. helm_q T E qp) Ts) modes"
  let ?G = "map (\<lambda>qp. map (\<lambda>T. map (\<lambda>P. gibbs_q T P (Fin v) E qp) (map Fin ps)) Ts) modes"
  have a: "?G ! q ! t ! p = Fin (ps ! p * v * 0.602214) + ?H ! q ! t"
    if "q < length modes" "t < length Ts" "p < length ps" for q t p
    using that by (simp add: gibbs_q_Fin)
  have a0: "?G ! q ! t ! p = ?H ! q ! t"
    if "q < length modes" "t < length Ts" "p < length ps" "ps ! p = 0" for q t p
    using a [OF that(1,2,3)] that(4) by (simp add: zero_pyfloat_def [symmetric])
  have A: "\<exists>h H G. thermodynamics False self = Inr h
            \<and> helmholtz h = Some H \<and> gibbs h = Some G
            \<and> length H = length modes \<and> length G = length modes
            \<and> (\<forall>q < length modes. \<forall>t < length Ts. \<forall>p < length ps.
                  G ! q ! t ! p = Fin (ps ! p * v * 0.602214) + H ! q ! t
                  \<and> (ps ! p = 0 \<longrightarrow> G ! q ! t ! p = H ! q ! t))"
    apply (rule exI [of _ "self\<lparr>mode := Some ms1,
               zp_energy := Some (map zp_contribution modes),
               U_vib := Some (map (\<lambda>qp. map (\<lambda>T. U_q T qp) Ts) modes),
               entropy := Some (map (\<lambda>qp. map (\<lambda>T. S_contribution T qp) Ts) modes),
               C_v := Some (map (\<lambda>qp. map (\<lambda>T. C_contribution T qp) Ts) modes),
               helmholtz := Some ?H, gibbs := Some ?G\<rparr>"])
    apply (rule exI [of _ ?H])
    apply (rule exI [of _ ?G])
    using 1 a a0 apply (simp del: One_nat_def)
    done
  from thermodynamics_summed [OF assms] obtain ms2 where
    2: "thermodynamics True self =
     Inr (self\<lparr>mode := Some ms2,
               zp_energy := Some (map zp_contribution modes),
               U_vib := Some [map (\<lambda>T. sum_list (map (U_q T) modes)) Ts],
               entropy := Some [map (\<lambda>T. sum_list (map (S_contribution T) modes)) Ts],
               C_v := Some [map (\<lambda>T. sum_list (map (C_contribution T) modes)) Ts],
               helmholtz := Some [map (\<lambda>T. sum_list (map (helm_q T E) modes)) Ts],
               gibbs := Some [map (\<lambda>T. map (\<lambda>P. sum_list (map (gibbs_q T P (Fin v) E) modes))
                                         (map Fin ps)) Ts],
               nqpoint := Some 1,
               qpoint := Some [[0, 0, 0]]\<rparr>)"
    by blast
  let ?Hs = "map (\<lambda>T. sum_list (map (helm_q T E) modes)) Ts"
  let ?Gs = "map (\<lambda>T. map (\<lambda>P. sum_list (map (gibbs_q T P (Fin v) E) modes)) (map Fin ps)) Ts"
  have b: "?Gs ! t ! p = Fin (real (length modes) * (ps ! p * v * 0.602214)) + ?Hs ! t"
    if "t < length Ts" "p < length ps" for t p
    using that by (simp add: sum_gibbs_q del: of_nat_mult)
  have b0: "?Gs ! t ! p = ?Hs ! t"
    if "t < length Ts" "p < length ps" "ps ! p = 0" for t p
    using b [OF that(1,2)] that(3) by (simp add: zero_pyfloat_def [symmetric])
  have B: "\<exists>h H G. thermodynamics True self = Inr h
            \<and> helmholtz h = Some [H] \<and> gibbs h = Some [G]
            \<and> (\<forall>t < length Ts. \<forall>p < length ps.
                  G ! t ! p = Fin (real (length modes) * (ps ! p * v * 0.602214)) + H ! t
                  \<and> (ps ! p = 0 \<longrightarrow> G ! t ! p = H ! t))"
    apply (rule exI [of _ "self\<lparr>mode := Some ms2,
               zp_energy := Some (map zp_contribution modes),
               U_vib := Some [map (\<lambda>T. sum_list (map (U_q T) modes)) Ts],
               entropy := Some [map (\<lambda>T. sum_list (map (S_contribution T) modes)) Ts],
               C_v := Some [map (\<lambda>T. sum_list (map (C_contribution T) modes)) Ts],
               helmholtz := Some [?Hs], gibbs := Some [?Gs],
               nqpoint := Some 1, qpoint := Some [[0, 0, 0]]\<rparr>"])
    apply (rule exI [of _ ?Hs])
    apply (rule exI [of _ ?Gs])
    using 2 b b0 apply (simp del: One_nat_def)
    done
  from A B show ?thesis by blast
qed

theorem gibbs_is_pv_plus_helmholtz_witness:
  "(\<exists>h H G. thermodynamics False (Harmonic_init\<lparr>mode := Some [[Mode_init 1 [Fin 1] [Fin 1] []], [Mode_init 1 [Fin 1] [Fin 1] []]],
                        temperature := Some [Fin 0], pressure := Some (map Fin [1]),
                        volume := Some (Fin 1), edft := Some (Fin 0)\<rparr>) = Inr h
            \<and> helmholtz h = Some H \<and> gibbs h = Some G
            \<and> length H = length [[Mode_init 1 [Fin 1] [Fin 1] []], [Mode_init 1 [Fin 1] [Fin 1] []]] \<and> length G = length [[Mode_init 1 [Fin 1] [Fin 1] []], [Mode_init 1 [Fin 1] [Fin 1] []]]
            \<and> (\<forall>q < length [[Mode_init 1 [Fin 1] [Fin 1] []], [Mode_init 1 [Fin 1] [Fin 1] []]]. \<forall>t < length [Fin 0]. \<forall>p < length [1::real].
                  G ! q ! t ! p = Fin ([1] ! p * 1 * 0.602214) + H ! q ! t
                  \<and> ([1::real] ! p = 0 \<longrightarrow> G ! q ! t ! p = H ! q ! t)))
       \<and> (\<exists>h H G. thermodynamics True (Harmonic_init\<lparr>mode := Some [[Mode_init 1 [Fin 1] [Fin 1] []], [Mode_init 1 [Fin 1] [Fin 1] []]],
                        temperature := Some [Fin 0], pressure := Some (map Fin [1]),
                        volume := Some (Fin 1), edft := Some (Fin 0)\<rparr>) = Inr h
            \<and> helmholtz h = Some [H] \<and> gibbs h = Some [G]
            \<and> (\<forall>t < length [Fin 0]. \<forall>p < length [1::real].
                  G ! t ! p = Fin (real (length [[Mode_init 1 [Fin 1] [Fin 1] []], [Mode_init 1 [Fin 1] [Fin 1] []]]) * ([1] ! p * 1 * 0.602214)) + H ! t
                  \<and> ([1::real] ! p = 0 \<longrightarrow> G ! t ! p = H ! t)))"
proof -
  have "populated (Harmonic_init\<lparr>mode := Some [[Mode_init 1 [Fin 1] [Fin 1] []], [Mode_init 1 [Fin 1] [Fin 1] []]],
                        temperature := Some [Fin 0], pressure := Some (map Fin [1]),
                        volume := Some (Fin 1), edft := Some (Fin 0)\<rparr>) [[Mode_init 1 [Fin 1] [Fin 1] []], [Mode_init 1 [Fin 1] [Fin 1] []]] [Fin 0] (map Fin [1]) (Fin 1) (Fin 0)"
    unfolding populated_example by (simp add: single_sample_init)
  then show ?thesis
    by (rule gibbs_is_pv_plus_helmholtz)
qed

lemma contributions_singleton:
  assumes "counted m"
  shows "zp_contribution [m] = value_of (get_zp_energy m)"
    and "S_contribution T [m] = value_of (get_entropy T m)"
    and "U_q T [m] = value_of (get_U_vib T (fresh m))"
  using assms by (simp_all add: zp_contribution_def S_contribution_def U_q_def)

lemma counted_init_one: "counted (Mode_init r [Fin 1] v e)"
proof -
  have "1 / 200000 < pi" using pi_ge_two by simp
  then show ?thesis
    by (simp add: counted_Fin [OF frequency_init_Fin])
qed

lemma helm_q_zero_init_one:
  "helm_q (Fin 0) (Fin e) [Mode_init r [Fin 1] v ev] = Fin (0.5 * hbar_r (2 * pi) + e)"
proof -
  have 1: "value_of (get_entropy (Fin 0) (Mode_init r [Fin 1] v ev)) = Fin 0"
    by (rule get_entropy_value_zero [OF ncalc_init])
  have 2: "value_of (get_U_vib (Fin 0) (fresh (Mode_init r [Fin 1] v ev)))
      = Fin (0.5 * hbar_r (1 * 2 * pi))"
    by (rule get_U_vib_fresh_zero [OF ncalc_init frequency_init_Fin])
  show ?thesis
    by (simp add: helm_q_def contributions_singleton [OF counted_init_one] 1 2)
qed

theorem gibbs_is_pv_plus_helmholtz_counterexample:
  "\<exists>h a g. thermodynamics True (Harmonic_init\<lparr>mode := Some [[Mode_init 1 [Fin 1] [Fin 1] []], [Mode_init 1 [Fin 1] [Fin 1] []]],
                        temperature := Some [Fin 0], pressure := Some (map Fin [1]),
                        volume := Some (Fin 1), edft := Some (Fin 0)\<rparr>) = Inr h
      \<and> helmholtz h = Some [[Fin a]] \<and> gibbs h = Some [[[Fin g]]]
      \<and> g \<noteq> 1 * 1 * 0.602214 + a"
proof -
  have "populated (Harmonic_init\<lparr>mode := Some [[Mode_init 1 [Fin 1] [Fin 1] []], [Mode_init 1 [Fin 1] [Fin 1] []]],
                        temperature := Some [Fin 0], pressure := Some (map Fin [1]),
                        volume := Some (Fin 1), edft := Some (Fin 0)\<rparr>) [[Mode_init 1 [Fin 1] [Fin 1] []], [Mode_init 1 [Fin 1] [Fin 1] []]] [Fin 0] (map Fin [1]) (Fin 1) (Fin 0)"
    unfolding populated_example by (simp add: single_sample_init)
  from thermodynamics_summed [OF this] obtain ms' where
    "thermodynamics True (Harmonic_init\<lparr>mode := Some [[Mode_init 1 [Fin 1] [Fin 1] []], [Mode_init 1 [Fin 1] [Fin 1] []]],
                        temperature := Some [Fin 0], pressure := Some (map Fin [1]),
                        volume := Some (Fin 1), edft := Some (Fin 0)\<rparr>) =
     Inr ((Harmonic_init\<lparr>mode := Some [[Mode_init 1 [Fin 1] [Fin 1] []], [Mode_init 1 [Fin 1] [Fin 1] []]],
                        temperature := Some [Fin 0], pressure := Some (map Fin [1]),
                        volume := Some (Fin 1), edft := Some (Fin 0)\<rparr>)\<lparr>mode := Some ms',
               zp_energy := Some (map zp_contribution [[Mode_init 1 [Fin 1] [Fin 1] []], [Mode_init 1 [Fin 1] [Fin 1] []]]),
               U_vib := Some [map (\<lambda>T. sum_list (map (U_q T) [[Mode_init 1 [Fin 1] [Fin 1] []], [Mode_init 1 [Fin 1] [Fin 1] []]])) [Fin 0]],
               entropy := Some [map (\<lambda>T. sum_list (map (S_contribution T) [[Mode_init 1 [Fin 1] [Fin 1] []], [Mode_init 1 [Fin 1] [Fin 1] []]])) [Fin 0]],
               C_v := Some [map (\<lambda>T. sum_list (map (C_contribution T) [[Mode_init 1 [Fin 1] [Fin 1] []], [Mode_init 1 [Fin 1] [Fin 1] []]])) [Fin 0]],
               helmholtz := Some [map (\<lambda>T. sum_list (map (helm_q T (Fin 0)) [[Mode_init 1 [Fin 1] [Fin 1] []], [Mode_init 1 [Fin 1] [Fin 1] []]])) [Fin 0]],
               gibbs := Some [map (\<lambda>T. map (\<lambda>P. sum_list (map (gibbs_q T P (Fin 1) (Fin 0)) [[Mode_init 1 [Fin 1] [Fin 1] []], [Mode_init 1 [Fin 1] [Fin 1] []]]))
                                         (map Fin [1])) [Fin 0]],
               nqpoint := Some 1,
               qpoint := Some [[0, 0, 0]]\<rparr>)"
    by blast
  then show ?thesis
    by (simp add: gibbs_q_Fin helm_q_zero_init_one)
qed

section \<open>The tensors at concrete inputs\<close>

lemma counted_init_two: "counted (Mode_init r [Fin 2] v e)"
proof -
  have "1 / 400000 < pi" using pi_ge_two by simp
  then show ?thesis
    by (simp add: counted_Fin [OF frequency_init_Fin])
qed

lemma zp_init_Fin:
  "value_of (get_zp_energy (Mode_init r [Fin f] v e)) = Fin (0.5 * hbar_r (f * 2 * pi))"
  by (rule get_zp_energy_Fin [OF ncalc_init frequency_init_Fin])

lemma U_zero_init_Fin:
  "value_of (get_U_vib (Fin 0) (fresh (Mode_init r [Fin f] v e)))
     = Fin (0.5 * hbar_r (f * 2 * pi))"
  by (rule get_U_vib_fresh_zero [OF ncalc_init frequency_init_Fin])

text \<open>
  Claim C2 at two q-points of one mode each (1 THz and 2 THz), one temperature (0 K)
  and the sums over the Brillouin zone switched on: the q-point count becomes 1, the
  q-point \<open>(0, 0, 0)\<close>, and the internal energy is the sum of the two q-points; the
  zero-point energy is left as the two values per q-point, so that the entry of the one
  reported q-point is the zero-point energy of the first q-point alone.
\<close>

theorem summed_zero_point_energy_is_not_summed:
  "\<exists>h z1 z2. thermodynamics True
         (Harmonic_init\<lparr>mode := Some [[Mode_init 1 [Fin 1] [Fin 50] []],
                                      [Mode_init 1 [Fin 2] [Fin 50] []]],
                        temperature := Some [Fin 0], pressure := Some [Fin 0],
                        volume := Some (Fin 50), edft := Some (Fin 0)\<rparr>) = Inr h
      \<and> nqpoint h = Some 1 \<and> qpoint h = Some [[0, 0, 0]]
      \<and> U_vib h = Some [[Fin (z1 + z2)]]
      \<and> zp_energy h = Some [Fin z1, Fin z2]
      \<and> 0 < z2 \<and> z1 \<noteq> z1 + z2"
proof -
  let ?modes = "[[Mode_init 1 [Fin 1] [Fin 50] []], [Mode_init 1 [Fin 2] [Fin 50] []]]"
  let ?X = "Harmonic_init\<lparr>mode := Some ?modes,
                        temperature := Some [Fin 0], pressure := Some [Fin 0],
                        volume := Some (Fin 50), edft := Some (Fin 0)\<rparr>"
  have "populated ?X ?modes [Fin 0] [Fin 0] (Fin 50) (Fin 0)"
    unfolding populated_example by (simp add: single_sample_init)
  from thermodynamics_summed [OF this] obtain ms' where
    "thermodynamics True ?X =
     Inr (?X\<lparr>mode := Some ms',
               zp_energy := Some (map zp_contribution ?modes),
               U_vib := Some [map (\<lambda>T. sum_list (map (U_q T) ?modes)) [Fin 0]],
               entropy := Some [map (\<lambda>T. sum_list (map (S_contribution T) ?modes)) [Fin 0]],
               C_v := Some [map (\<lambda>T. sum_list (map (C_contribution T) ?modes)) [Fin 0]],
               helmholtz := Some [map (\<lambda>T. sum_list (map (helm_q T (Fin 0)) ?modes)) [Fin 0]],
               gibbs := Some [map (\<lambda>T. map (\<lambda>P. sum_list (map (gibbs_q T P (Fin 50) (Fin 0))
                                 ?modes)) [Fin 0]) [Fin 0]],
               nqpoint := Some 1,
               qpoint := Some [[0, 0, 0]]\<rparr>)"
    by blast
  moreover have "0 < 0.5 * hbar_r (2 * 2 * pi)"
    by (simp add: hbar_r_pos)
  ultimately show ?thesis
    apply (intro exI [where x = "?X\<lparr>mode := Some ms',
               zp_energy := Some (map zp_contribution ?modes),
               U_vib := Some [map (\<lambda>T. sum_list (map (U_q T) ?modes)) [Fin 0]],
               entropy := Some [map (\<lambda>T. sum_list (map (S_contribution T) ?modes)) [Fin 0]],
               C_v := Some [map (\<lambda>T. sum_list (map (C_contribution T) ?modes)) [Fin 0]],
               helmholtz := Some [map (\<lambda>T. sum_list (map (helm_q T (Fin 0)) ?modes)) [Fin 0]],
               gibbs := Some [map (\<lambda>T. map (\<lambda>P. sum_list (map (gibbs_q T P (Fin 50) (Fin 0))
                                 ?modes)) [Fin 0]) [Fin 0]],
               nqpoint := Some 1,
               qpoint := Some [[0, 0, 0]]\<rparr>"])
    apply (rule exI [where x = "0.5 * hbar_r (1 * 2 * pi)"])
    apply (rule exI [where x = "0.5 * hbar_r (2 * 2 * pi)"])
    apply (simp add: contributions_singleton [OF counted_init_one]
        contributions_singleton [OF counted_init_two] zp_init_Fin U_zero_init_Fin)
    done
qed

lemma init_in_range:
  assumes "0 < t" "f * 0.06626070 \<le> 0.001380649 * t"
  shows "exp (hbar_r (f * 2 * pi) / (kb_r * t)) \<le> DBL_MAX"
proof -
  have "hbar_r (f * 2 * pi) / (kb_r * t) = f * 0.06626070 / (0.001380649 * t)"
    by (rule reduced_init) (use assms(1) in simp)
  also have "\<dots> \<le> 1" using assms by simp
  finally show ?thesis by (rule exp_in_range(1))
qed

lemma U_init_Fin:
  assumes "0 < f" "0 < t" "f * 0.06626070 \<le> 0.001380649 * t"
  shows "value_of (get_U_vib (Fin t) (fresh (Mode_init r [Fin f] v e)))
     = Fin (U_vib_r (f * 2 * pi) t)"
  by (rule get_U_vib_fresh_Fin [OF ncalc_init frequency_init_Fin _ _ init_in_range])
     (use assms in simp_all)

lemma entropy_init_Fin:
  assumes "0 < f" "0 < t" "f * 0.06626070 \<le> 0.001380649 * t"
  shows "value_of (get_entropy (Fin t) (Mode_init r [Fin f] v e))
     = Fin (entropy_r (f * 2 * pi) t)"
  by (rule get_entropy_value_Fin [OF ncalc_init frequency_init_Fin _ _ init_in_range])
     (use assms in simp_all)

text \<open>
  Claim C1 at one q-point with one mode of 1 THz, temperature 100 K and electronic
  energy 0: the Helmholtz free energy the method stores is \<open>U_vib - T * S + edft\<close> with
  the stored entropy \<open>S\<close> (in J/(mol K)) as it is, not \<open>U_vib - T * S / 1000 + edft\<close>.
\<close>

theorem helmholtz_uses_entropy_without_unit_conversion:
  "\<exists>h u s a. thermodynamics False
         (Harmonic_init\<lparr>mode := Some [[Mode_init 1 [Fin 1] [Fin 50] []]],
                        temperature := Some [Fin 100], pressure := Some [Fin 0],
                        volume := Some (Fin 50), edft := Some (Fin 0)\<rparr>) = Inr h
      \<and> U_vib h = Some [[Fin u]] \<and> entropy h = Some [[Fin s]]
      \<and> helmholtz h = Some [[Fin a]]
      \<and> a = u - 100 * s + 0
      \<and> a \<noteq> u - 100 * s / 1000 + 0"
proof -
  let ?modes = "[[Mode_init 1 [Fin 1] [Fin 50] []]]"
  let ?X = "Harmonic_init\<lparr>mode := Some ?modes,
                        temperature := Some [Fin 100], pressure := Some [Fin 0],
                        volume := Some (Fin 50), edft := Some (Fin 0)\<rparr>"
  have "populated ?X ?modes [Fin 100] [Fin 0] (Fin 50) (Fin 0)"
    unfolding populated_example by (simp add: single_sample_init)
  from thermodynamics_per_qpoint [OF this] obtain ms' where
    "thermodynamics False ?X =
     Inr (?X\<lparr>mode := Some ms',
               zp_energy := Some (map zp_contribution ?modes),
               U_vib := Some (map (\<lambda>qp. map (\<lambda>T. U_q T qp) [Fin 100]) ?modes),
               entropy := Some (map (\<lambda>qp. map (\<lambda>T. S_contribution T qp) [Fin 100]) ?modes),
               C_v := Some (map (\<lambda>qp. map (\<lambda>T. C_contribution T qp) [Fin 100]) ?modes),
               helmholtz := Some (map (\<lambda>qp. map (\<lambda>T. helm_q T (Fin 0) qp) [Fin 100]) ?modes),
               gibbs := Some (map (\<lambda>qp. map (\<lambda>T. map (\<lambda>P. gibbs_q T P (Fin 50) (Fin 0) qp)
                                [Fin 0]) [Fin 100]) ?modes)\<rparr>)"
    by blast
  moreover have u: "U_q (Fin 100) [Mode_init 1 [Fin 1] [Fin 50] []] = Fin (U_vib_r (1 * 2 * pi) 100)"
    by (simp only: contributions_singleton [OF counted_init_one]) (rule U_init_Fin; simp)
  moreover have s: "S_contribution (Fin 100) [Mode_init 1 [Fin 1] [Fin 50] []]
      = Fin (entropy_r (1 * 2 * pi) 100)"
    by (simp only: contributions_singleton [OF counted_init_one]) (rule entropy_init_Fin; simp)
  moreover have "0 < entropy_r (1 * 2 * pi) 100"
    by (rule entropy_r_pos) simp_all
  ultimately show ?thesis
    apply (intro exI [where x = "?X\<lparr>mode := Some ms',
               zp_energy := Some (map zp_contribution ?modes),
               U_vib := Some (map (\<lambda>qp. map (\<lambda>T. U_q T qp) [Fin 100]) ?modes),
               entropy := Some (map (\<lambda>qp. map (\<lambda>T. S_contribution T qp) [Fin 100]) ?modes),
               C_v := Some (map (\<lambda>qp. map (\<lambda>T. C_contribution T qp) [Fin 100]) ?modes),
               helmholtz := Some (map (\<lambda>qp. map (\<lambda>T. helm_q T (Fin 0) qp) [Fin 100]) ?modes),
               gibbs := Some (map (\<lambda>qp. map (\<lambda>T. map (\<lambda>P. gibbs_q T P (Fin 50) (Fin 0) qp)
                                [Fin 0]) [Fin 100]) ?modes)\<rparr>"])
    apply (rule exI [where x = "U_vib_r (1 * 2 * pi) 100"])
    apply (rule exI [where x = "entropy_r (1 * 2 * pi) 100"])
    apply (rule exI [where x = "U_vib_r (1 * 2 * pi) 100 - 100 * entropy_r (1 * 2 * pi) 100 + 0"])
    apply (simp add: helm_q_def)
    done
qed

section \<open>Populating the engine from a file\<close>

text \<open>
  Claim C9.  On an engine that holds no data yet (no \<open>volume\<close> attribute), an output
  with more than one electronic energy makes \<open>from_file\<close> return the message
  ``ERROR: Only a single frequency calculation is premitted.'' to its caller instead of
  the object; nothing is raised, and the call leaves the mode list, the scalar
  electronic energy and the six thermodynamic tensors as they were: absent, on a new
  object.
\<close>

theorem from_file_rejects_several_energies:
  assumes "1 < length (out_edft out)" and "volume self = None"
  shows "\<exists>self'. from_file out Ts Ps write_out self =
            Inr (Some ''ERROR: Only a single frequency calculation is premitted.'', self')
          \<and> mode self' = mode self \<and> edft self' = edft self
          \<and> zp_energy self' = zp_energy self \<and> U_vib self' = U_vib self
          \<and> entropy self' = entropy self \<and> C_v self' = C_v self
          \<and> helmholtz self' = helmholtz self \<and> gibbs self' = gibbs self"
  using assms by (simp add: from_file_def Let_def)

theorem from_file_rejects_several_energies_witness:
  "\<exists>self'. from_file \<lparr>out_edft = [Fin (- 100), Fin (- 101)], out_nqpoint = 1,
                        out_qpoint = [[0, 0, 0]], out_frequency = [[Fin 5]],
                        out_volume = Fin 50\<rparr> [Fin 298.15] [Fin 0] True Harmonic_init =
            Inr (Some ''ERROR: Only a single frequency calculation is premitted.'', self')
          \<and> mode self' = None \<and> edft self' = None
          \<and> zp_energy self' = None \<and> U_vib self' = None
          \<and> entropy self' = None \<and> C_v self' = None
          \<and> helmholtz self' = None \<and> gibbs self' = None"
proof -
  have 1: "1 < length (out_edft \<lparr>out_edft = [Fin (- 100), Fin (- 101)], out_nqpoint = 1,
                        out_qpoint = [[0, 0, 0]], out_frequency = [[Fin 5]],
                        out_volume = Fin 50\<rparr>)"
    by simp
  have 2: "volume Harmonic_init = None"
    by (simp add: Harmonic_init_def)
  from from_file_rejects_several_energies [OF 1 2, of "[Fin 298.15]" "[Fin 0]" True]
  show ?thesis by (simp add: Harmonic_init_def)
qed

section \<open>Primitive cell and supercell\<close>

lemma inv_diag2: "np_linalg_inv (int_matrix diag2) = Inr [[1 / 2, 0, 0], [0, 1 / 2, 0], [0, 0, 1 / 2]]"
  by (simp add: np_linalg_inv_def det3_def int_matrix_def Let_def)

lemma inv_ident: "np_linalg_inv (int_matrix ident) = Inr [[1, 0, 0], [0, 1, 0], [0, 0, 1]]"
  by (simp add: np_linalg_inv_def det3_def int_matrix_def Let_def)

lemma upto_0_2: "[0..2::int] = [0, 1, 2]"
  by (simp add: upto.simps)

lemma upto_0_1: "[0..1::int] = [0, 1]"
  by (simp add: upto.simps)

lemma points_diag2:
  "lattice_points_in_supercell diag2 =
     Inr [[0, 0, 0], [0, 0, 1 / 2], [0, 1 / 2, 0], [0, 1 / 2, 1 / 2],
          [1 / 2, 0, 0], [1 / 2, 0, 1 / 2], [1 / 2, 1 / 2, 0], [1 / 2, 1 / 2, 1 / 2]]"
  unfolding lattice_points_in_supercell_def inv_diag2
  by (simp add: Let_def upto_0_2 dot_vec_def det3_def int_matrix_def)

lemma points_ident:
  "lattice_points_in_supercell ident = Inr [[0, 0, 0]]"
  unfolding lattice_points_in_supercell_def inv_ident
  by (simp add: Let_def upto_0_1 dot_vec_def det3_def int_matrix_def)

lemma inv_lattice2: "np_linalg_inv [[2, 0, 0], [0, 2, 0], [0, 0, 2]] = Inr [[1 / 2, 0, 0], [0, 1 / 2, 0], [0, 0, 1 / 2]]"
  by (simp add: np_linalg_inv_def det3_def Let_def)

lemma inv_lattice1: "np_linalg_inv [[1, 0, 0], [0, 1, 0], [0, 0, 1]] = Inr [[1, 0, 0], [0, 1, 0], [0, 0, 1]]"
  by (simp add: np_linalg_inv_def det3_def Let_def)

lemma to_unit_cell_periodic:
  "to_unit_cell [True, True, True] [a, b, c] = [frac a, frac b, frac c]"
  by (simp add: to_unit_cell_def)

lemma supercell_cubic:
  "make_supercell diag2 cubic =
   Inr \<lparr>lattice = [[2, 0, 0], [0, 2, 0], [0, 0, 2]], pbc = [True, True, True],
        atomic_numbers = [84, 84, 84, 84, 84, 84, 84, 84],
        frac_coords =
          [[0, 0, 0], [0, 0, 1 / 2], [0, 1 / 2, 0],
           [0, 1 / 2, 1 / 2], [1 / 2, 0, 0], [1 / 2, 0, 1 / 2],
           [1 / 2, 1 / 2, 0], [1 / 2, 1 / 2, 1 / 2]]\<rparr>"
proof -
  have l: "matmul (int_matrix diag2) (lattice cubic) = [[2, 0, 0], [0, 2, 0], [0, 0, 2]]"
    by (simp add: matmul_def int_matrix_def dot_vec_def cubic_def)
  have c: "cart_coords cubic = [[0, 0, 0]]"
    by (simp add: cart_coords_def dot_vec_def cubic_def)
  have a: "atomic_numbers cubic = [84]" "pbc cubic = [True, True, True]"
    by (simp_all add: cubic_def)
  show ?thesis
    unfolding make_supercell_def l points_diag2 Let_def inv_lattice2 c a
    by (simp add: dot_vec_def to_unit_cell_periodic)
qed

lemma upt3: "[0..<3] = [0, 1, 2]"
  by (simp add: upt_rec)

lemma shift_row_diag2:
  "shift_row 3 [[2, 0, 0], [0, 2, 0], [0, 0, 2]] [x, y, z] = [x - 1, y - 1, z - 1]"
  unfolding shift_row_def upt3 by simp

lemma scel_cubic: "get_scel cubic diag2 = Inr scel8"
proof -
  have n: "count_list (pbc cubic) True = 3" "num_sites cubic = 1" "pbc cubic = [True, True, True]"
    by (simp_all add: cubic_def num_sites_def)
  have s: "shift_row 3 [[2, 0, 0], [0, 2, 0], [0, 0, 2]] [0, 0, 0] = [- 1, - 1, - 1]"
    by (simp add: shift_row_diag2)
  show ?thesis
    unfolding get_scel_def n(1,2) supercell_cubic Let_def
    by (simp add: n(3) cart_coords_def dot_vec_def shift_origin_def s Structure_cart_def
        inv_lattice2)
qed

lemma supercell_scel8:
  "make_supercell ident scel8 =
   Inr \<lparr>lattice = [[2, 0, 0], [0, 2, 0], [0, 0, 2]], pbc = [True, True, True],
        atomic_numbers = [84, 84, 84, 84, 84, 84, 84, 84],
        frac_coords =
          [[1 / 2, 1 / 2, 1 / 2], [0, 0, 1 / 2], [0, 1 / 2, 0],
           [0, 1 / 2, 1 / 2], [1 / 2, 0, 0], [1 / 2, 0, 1 / 2],
           [1 / 2, 1 / 2, 0], [1 / 2, 1 / 2, 1 / 2]]\<rparr>"
proof -
  have l: "matmul (int_matrix ident) (lattice scel8) = [[2, 0, 0], [0, 2, 0], [0, 0, 2]]"
    by (simp add: matmul_def int_matrix_def dot_vec_def)
  have c: "cart_coords scel8 =
      [[- 1, - 1, - 1], [0, 0, 1], [0, 1, 0], [0, 1, 1], [1, 0, 0], [1, 0, 1], [1, 1, 0],
       [1, 1, 1]]"
    by (simp add: cart_coords_def dot_vec_def)
  have f: "frac (- (1 / 2) :: real) = 1 / 2" "frac (1 / 2 :: real) = 1 / 2"
    by (simp_all add: frac_def)
  show ?thesis
    unfolding make_supercell_def l points_ident Let_def inv_lattice2 c
    by (simp add: dot_vec_def to_unit_cell_periodic f)
qed

lemma np_round_values: "np_round 12 0 = 0" "np_round 12 (- 1) = - 1"
  by (simp_all add: np_round_def np_rint_def Let_def)

lemma all_coords_scel8:
  "pcel_all_coords scel8 diag2 =
     Inr ([[1, 0, 0], [0, 1, 0], [0, 0, 1]], [84, 84, 84, 84, 84, 84, 84, 84],
          [[0, 0, 0], [- 1, - 1, 0], [- 1, 0, - 1], [- 1, 0, 0], [0, - 1, - 1], [0, - 1, 0],
           [0, 0, - 1], [0, 0, 0]])"
proof -
  have n: "count_list (pbc scel8) True = 3" "num_sites scel8 = 8"
    by (simp_all add: num_sites_def)
  have m: "matmul [[1 / 2, 0, 0], [0, 1 / 2, 0], [0, 0, 1 / 2]] [[2, 0, 0], [0, 2, 0], [0, 0, 2]]
      = [[1, 0, 0], [0, 1, 0], [0, 0, 1]]"
    by (simp add: matmul_def dot_vec_def)
  show ?thesis
    unfolding pcel_all_coords_def n supercell_scel8 Let_def inv_diag2
    by (simp add: cart_coords_def dot_vec_def shift_origin_def shift_row_diag2 m inv_lattice1)
qed

lemma pcel_scel8:
  "get_pcel scel8 diag2 =
   Inr \<lparr>lattice = [[1, 0, 0], [0, 1, 0], [0, 0, 1]], pbc = [True, True, True],
        atomic_numbers = [84, 84], frac_coords = [[0, 0, 0], [0, 0, 0]]\<rparr>"
proof -
  have n: "count_list (pbc scel8) True = 3" by simp
  show ?thesis
    unfolding get_pcel_def all_coords_scel8 n
    by (simp add: np_round_values)
qed

lemma pcel_sites_Cons:
  "pcel_sites ndimen ((z, coord) # rest) =
     (if kept ndimen coord
      then (case pcel_sites ndimen rest of (cs, ss) \<Rightarrow> (coord # cs, z # ss))
      else pcel_sites ndimen rest)"
  by (auto simp: kept_def in_cell_def list_all_iff list_ex_iff not_less not_le)

lemma pcel_sites_filter:
  "pcel_sites ndimen sites = (pcel_coords, pcel_species) \<Longrightarrow>
   zip pcel_species pcel_coords = filter (\<lambda>(z, coord). kept ndimen coord) sites
   \<and> length pcel_species = length pcel_coords"
proof (induction sites arbitrary: pcel_coords pcel_species)
  case Nil
  then show ?case by simp
next
  case (Cons site sites)
  obtain z coord where site: "site = (z, coord)" by (cases site)
  obtain cs ss where rest: "pcel_sites ndimen sites = (cs, ss)" by (cases "pcel_sites ndimen sites")
  note ih = Cons.IH [OF rest]
  from Cons.prems have "(if kept ndimen coord then (coord # cs, z # ss) else (cs, ss))
      = (pcel_coords, pcel_species)"
    unfolding site pcel_sites_Cons rest by (simp split: if_splits)
  with ih show ?case
    unfolding site by (cases "kept ndimen coord") auto
qed

lemma dot_vec_length: "length (dot_vec v m) = 3"
  by (simp add: dot_vec_def)

lemma pcel_all_coords_length:
  assumes "pcel_all_coords struc smx = Inr (pcel_mx, all_species, all_coords)"
  shows "list_all (\<lambda>c. length c = 3) all_coords"
  using assms
  by (auto simp: pcel_all_coords_def Let_def list_all_iff dot_vec_length
      split: sum.splits)

lemma kept_periodic:
  assumes "periodic_first p" "length coord = 3"
  shows "kept (count_list p True) coord \<longleftrightarrow> (\<forall>j<3. p ! j \<longrightarrow> in_cell (coord ! j))"
proof -
  let ?n = "count_list p True"
  from assms(1) have p: "p = replicate ?n True @ replicate (3 - ?n) False" and l: "length p = 3"
    by (simp_all add: periodic_first_def)
  have n: "?n \<le> 3" using count_le_length [of p True] l by simp
  have pj: "p ! j \<longleftrightarrow> j < ?n" if "j < 3" for j
  proof -
    have "p ! j = (replicate ?n True @ replicate (3 - ?n) False) ! j" using p by simp
    also have "\<dots> \<longleftrightarrow> j < ?n" using that n by (simp add: nth_append)
    finally show ?thesis .
  qed
  have "kept ?n coord \<longleftrightarrow> (\<forall>j<?n. in_cell (coord ! j))"
    using n assms(2) by (simp add: kept_def list_all_length)
  also have "\<dots> \<longleftrightarrow> (\<forall>j<3. p ! j \<longrightarrow> in_cell (coord ! j))"
    using pj n by auto
  finally show ?thesis .
qed

lemma np_rint_near: "\<bar>of_int (np_rint y) - y\<bar> \<le> 1 / 2"
proof -
  have "0 \<le> y - of_int \<lfloor>y\<rfloor>" "y - of_int \<lfloor>y\<rfloor> < 1"
    by linarith+
  then show ?thesis
    by (auto simp: np_rint_def Let_def)
qed

lemma np_round_near:
  "(\<exists>k::int. np_round d x = of_int k / 10 ^ d) \<and> \<bar>np_round d x - x\<bar> \<le> 1 / (2 * 10 ^ d)"
proof -
  have "np_round d x - x = (of_int (np_rint (x * 10 ^ d)) - x * 10 ^ d) / 10 ^ d"
    by (simp add: np_round_def field_simps)
  then have "\<bar>np_round d x - x\<bar> = \<bar>of_int (np_rint (x * 10 ^ d)) - x * 10 ^ d\<bar> / 10 ^ d"
    by simp
  also have "\<dots> \<le> (1 / 2) / 10 ^ d"
    by (intro divide_right_mono np_rint_near) simp
  finally have "\<bar>np_round d x - x\<bar> \<le> 1 / (2 * 10 ^ d)" by simp
  moreover have "\<exists>k::int. np_round d x = of_int k / 10 ^ d"
    by (auto simp: np_round_def)
  ultimately show ?thesis by blast
qed

lemma supercell_near_faces: "make_supercell ident near_faces = Inr near_faces"
proof -
  have l: "matmul (int_matrix ident) (lattice near_faces) = [[2, 0, 0], [0, 2, 0], [0, 0, 2]]"
    by (simp add: matmul_def int_matrix_def dot_vec_def)
  have c: "cart_coords near_faces =
      [[1, 1, 1], [1.5000000000004, 1, 1], [0.5000000000004, 1, 1], [1.5000000000006, 1, 1],
       [1 / 2, 1, 1]]"
    by (simp add: cart_coords_def dot_vec_def)
  have f: "frac (1 / 2 :: real) = 1 / 2" "frac (0.7500000000002 :: real) = 0.7500000000002"
    "frac (0.2500000000002 :: real) = 0.2500000000002"
    "frac (0.7500000000003 :: real) = 0.7500000000003" "frac (1 / 4 :: real) = 1 / 4"
    by (simp_all add: frac_def)
  show ?thesis
    unfolding make_supercell_def l points_ident Let_def inv_lattice2 c
    by (simp add: dot_vec_def to_unit_cell_periodic f)
qed

lemma all_coords_near_faces:
  "pcel_all_coords near_faces diag2 =
     Inr ([[1, 0, 0], [0, 1, 0], [0, 0, 1]], [1, 2, 3, 4, 5],
          [[0, 0, 0], [0.5000000000004, 0, 0], [- 0.4999999999996, 0, 0],
           [0.5000000000006, 0, 0], [- 0.5, 0, 0]])"
proof -
  have n: "count_list (pbc near_faces) True = 3" "num_sites near_faces = 5"
    by (simp_all add: num_sites_def)
  have m: "matmul [[1 / 2, 0, 0], [0, 1 / 2, 0], [0, 0, 1 / 2]] [[2, 0, 0], [0, 2, 0], [0, 0, 2]]
      = [[1, 0, 0], [0, 1, 0], [0, 0, 1]]"
    by (simp add: matmul_def dot_vec_def)
  show ?thesis
    unfolding pcel_all_coords_def n supercell_near_faces Let_def inv_diag2
    by (simp add: cart_coords_def dot_vec_def shift_origin_def shift_row_diag2 m inv_lattice1)
qed

lemma upt2: "[0..<2] = [0, 1]"
  by (simp add: upt_rec)

lemma all_coords_yz_periodic:
  "pcel_all_coords yz_periodic ident =
     Inr ([[1, 0, 0], [0, 1, 0], [0, 0, 1]], [84], [[0, 0, 9 / 10]])"
proof -
  have n: "count_list (pbc yz_periodic) True = 2" "num_sites yz_periodic = 1"
    by (simp_all add: num_sites_def)
  have l: "matmul (int_matrix ident) (lattice yz_periodic) = [[1, 0, 0], [0, 1, 0], [0, 0, 1]]"
    by (simp add: matmul_def int_matrix_def dot_vec_def)
  have c: "cart_coords yz_periodic = [[1 / 2, 1 / 2, 9 / 10]]"
    by (simp add: cart_coords_def dot_vec_def)
  have f: "frac (1 / 2 :: real) = 1 / 2" "frac (9 / 10 :: real) = 9 / 10"
    by (simp_all add: frac_def)
  have s: "make_supercell ident yz_periodic = Inr yz_periodic"
    unfolding make_supercell_def l points_ident Let_def inv_lattice1 c
    by (simp add: dot_vec_def to_unit_cell_def f)
  have m: "matmul [[1, 0, 0], [0, 1, 0], [0, 0, 1]] [[1, 0, 0], [0, 1, 0], [0, 0, 1]]
      = [[1, 0, 0], [0, 1, 0], [0, 0, 1]]"
    by (simp add: matmul_def dot_vec_def)
  have r: "shift_row 2 [[1, 0, 0], [0, 1, 0], [0, 0, 1]] [1 / 2, 1 / 2, 9 / 10] = [0, 0, 9 / 10]"
    unfolding shift_row_def upt2 upt3 by simp
  show ?thesis
    unfolding pcel_all_coords_def n s Let_def inv_ident
    by (simp add: c shift_origin_def r m inv_lattice1 dot_vec_def)
qed

text \<open>
  Claim C8, as amended.  Where \<open>get_pcel\<close> reaches its loop (the structure has sites
  and no matrix is singular), the structure it returns holds, in their order, exactly the
  sites whose fractional coordinates in the primitive cell, rounded to 12 decimals, lie
  in \<open>(-0.5, 0.5]\<close> in each of the first \<open>ndimen\<close> directions, \<open>ndimen\<close> being the
  number of periodic directions; every other site is left out.  The values tested are
  multiples of 1e-12 within 5e-13 of the coordinates.  With the periodic directions
  first, as CRYSTAL has them, the directions tested are the periodic ones.
\<close>

theorem get_pcel_keeps_half_open_cell:
  assumes "pcel_all_coords struc smx = Inr (pcel_mx, all_species, all_coords)"
  shows "\<exists>pcel. get_pcel struc smx = Inr pcel
          \<and> zip (atomic_numbers pcel) (frac_coords pcel) =
              filter (\<lambda>(z, coord). kept (count_list (pbc struc) True) coord)
                (zip all_species (map (map (np_round 12)) all_coords))
          \<and> length (atomic_numbers pcel) = length (frac_coords pcel)
          \<and> list_all (list_all (\<lambda>x. (\<exists>k::int. np_round 12 x = of_int k / 10 ^ 12)
                                    \<and> \<bar>np_round 12 x - x\<bar> \<le> 1 / (2 * 10 ^ 12))) all_coords
          \<and> (periodic_first (pbc struc) \<longrightarrow>
               list_all (\<lambda>coord. kept (count_list (pbc struc) True) coord \<longleftrightarrow>
                           (\<forall>j<3. pbc struc ! j \<longrightarrow> in_cell (coord ! j)))
                 (map (map (np_round 12)) all_coords))"
proof -
  let ?n = "count_list (pbc struc) True"
  let ?sites = "zip all_species (map (map (np_round 12)) all_coords)"
  obtain cs ss where p: "pcel_sites ?n ?sites = (cs, ss)"
    by (cases "pcel_sites ?n ?sites")
  from pcel_sites_filter [OF p]
  have f: "zip ss cs = filter (\<lambda>(z, coord). kept ?n coord) ?sites" "length ss = length cs"
    by simp_all
  have g: "get_pcel struc smx =
      Inr \<lparr>lattice = pcel_mx, pbc = pbc struc, atomic_numbers = ss, frac_coords = cs\<rparr>"
    by (simp add: get_pcel_def assms p)
  have l: "list_all (\<lambda>c. length c = 3) (map (map (np_round 12)) all_coords)"
    using pcel_all_coords_length [OF assms] by (simp add: list_all_iff)
  have k: "list_all (\<lambda>coord. kept ?n coord \<longleftrightarrow> (\<forall>j<3. pbc struc ! j \<longrightarrow> in_cell (coord ! j)))
      (map (map (np_round 12)) all_coords)" if "periodic_first (pbc struc)"
    using l kept_periodic [OF that] by (simp add: list_all_iff)
  have r: "list_all (list_all (\<lambda>x. (\<exists>k::int. np_round 12 x = of_int k / 10 ^ 12)
                                    \<and> \<bar>np_round 12 x - x\<bar> \<le> 1 / (2 * 10 ^ 12))) all_coords"
    using np_round_near [of 12] by (simp add: list_all_iff)
  from g f k r show ?thesis by simp
qed

theorem get_pcel_keeps_half_open_cell_witness:
  "\<exists>pcel. get_pcel near_faces diag2 = Inr pcel
      \<and> zip (atomic_numbers pcel) (frac_coords pcel) = [(1, [0, 0, 0]), (2, [1 / 2, 0, 0])]"
proof -
  from get_pcel_keeps_half_open_cell [OF all_coords_near_faces]
  obtain pcel where "get_pcel near_faces diag2 = Inr pcel"
    and "zip (atomic_numbers pcel) (frac_coords pcel) =
              filter (\<lambda>(z, coord). kept (count_list (pbc near_faces) True) coord)
                (zip [1, 2, 3, 4, 5]
                  (map (map (np_round 12))
                    [[0, 0, 0], [0.5000000000004, 0, 0], [- 0.4999999999996, 0, 0],
                     [0.5000000000006, 0, 0], [- 0.5, 0, 0]]))"
    by blast
  then show ?thesis
    by (simp add: np_round_def np_rint_def Let_def kept_def in_cell_def)
qed

theorem get_pcel_keeps_half_open_cell_counterexample:
  "get_pcel yz_periodic ident =
     Inr \<lparr>lattice = [[1, 0, 0], [0, 1, 0], [0, 0, 1]], pbc = [False, True, True],
          atomic_numbers = [84], frac_coords = [[0, 0, 9 / 10]]\<rparr>
   \<and> np_round 12 (9 / 10) = 9 / 10 \<and> pbc yz_periodic ! 2 \<and> \<not> in_cell (9 / 10)"
proof -
  have n: "count_list (pbc yz_periodic) True = 2" by simp
  have r: "np_round 12 0 = 0" "np_round 12 (9 / 10) = 9 / 10"
    by (simp_all add: np_round_def np_rint_def Let_def)
  have "get_pcel yz_periodic ident =
     Inr \<lparr>lattice = [[1, 0, 0], [0, 1, 0], [0, 0, 1]], pbc = [False, True, True],
          atomic_numbers = [84], frac_coords = [[0, 0, 9 / 10]]\<rparr>"
    unfolding get_pcel_def all_coords_yz_periodic n
    by (simp add: r)
  then show ?thesis
    by (simp add: r in_cell_def)
qed

text \<open>
  Claim C3 at the simple cubic cell with one atom at the origin and the expansion matrix
  \<open>diag(2, 2, 2)\<close>: \<open>get_scel\<close> returns eight sites, of which only the first (the
  site count before the expansion is 1) is shifted by half the cell; \<open>get_pcel\<close> of
  that supercell returns two sites, both at the origin, where the primitive cell has one.
\<close>

theorem scel_pcel_round_trip_doubles_site:
  "\<exists>scel pcel. get_scel cubic diag2 = Inr scel \<and> get_pcel scel diag2 = Inr pcel
      \<and> num_sites cubic = 1 \<and> frac_coords cubic = [[0, 0, 0]]
      \<and> num_sites scel = 8
      \<and> num_sites pcel = 2 \<and> frac_coords pcel = [[0, 0, 0], [0, 0, 0]]"
proof -
  have c: "num_sites cubic = 1" "frac_coords cubic = [[0, 0, 0]]"
    by (simp_all add: num_sites_def cubic_def)
  show ?thesis
    apply (rule exI [where x = scel8])
    apply (rule exI [where x = "\<lparr>lattice = [[1, 0, 0], [0, 1, 0], [0, 0, 1]],
        pbc = [True, True, True], atomic_numbers = [84, 84],
        frac_coords = [[0, 0, 0], [0, 0, 0]]\<rparr>"])
    apply (simp only: scel_cubic pcel_scel8 c)
    apply (simp add: num_sites_def)
    done
qed

end
